theory Spec2Isabelle
  imports Main "HOL-Library.Sublist"
begin

section \<open>The assistant bot: data model\<close>

text \<open>
  The program is \<^verbatim>\<open>src/assistant_bot/assistant_bot.py\<close>.  A Python \<^verbatim>\<open>str\<close> is
  modelled as a \<^typ>\<open>string\<close>; one \<^typ>\<open>char\<close> stands for one Python character whose code
  point is below 256, so \<^const>\<open>length\<close> is Python's \<^verbatim>\<open>len\<close>.  The parser of dates has
  character classes that reach beyond that range, so it is modelled on the list of the
  code points of its input (the integers that \<^verbatim>\<open>ord\<close> gives), which can be any Python
  \<^verbatim>\<open>str\<close>; \<open>codes\<close> gives the code points of a \<^typ>\<open>string\<close>.  Python integers are
  \<^typ>\<open>int\<close>.  An exception is a value of \<open>exn\<close>; a function that may raise returns
  \<open>exn + 'a\<close> with \<open>Inl\<close> for the raised exception.
\<close>

definition codes :: "string \<Rightarrow> int list" where
  \<comment> \<open>\<^verbatim>\<open>[ord(c) for c in s]\<close>\<close>
  "codes s = map of_char s"

datatype exn =
    KeyError
  | ValueError string
  | IndexError
  | AttributeError string
  | OverflowError string

subsection \<open>Field and its subclasses\<close>

text \<open>
  \<^verbatim>\<open>class Field\<close> has the single attribute \<^verbatim>\<open>value\<close>.  \<^verbatim>\<open>Name\<close>, \<^verbatim>\<open>Phone\<close> and
  \<^verbatim>\<open>Birthday\<close> differ from it only in what their constructors check.
\<close>

record 'a Field =
  field_value :: 'a

type_synonym Name = "string Field"
type_synonym Phone = "string Field"

definition Name_init :: "string \<Rightarrow> Name" where
  "Name_init nm = \<lparr>field_value = nm\<rparr>"

text \<open>
  \<^verbatim>\<open>str.isdigit\<close>: true when the string is not empty and every character has the Unicode
  property Numeric_Type=Digit or Numeric_Type=Decimal.  Below code point 256 these are the
  ten characters 0 to 9 and the superscripts two (U+00B2), three (U+00B3) and one (U+00B9).
\<close>

definition isdigit_char :: "char \<Rightarrow> bool" where
  "isdigit_char c =
     (let n = (of_char c :: nat)
      in (48 \<le> n \<and> n \<le> 57) \<or> n = 178 \<or> n = 179 \<or> n = 185)"

definition isdigit :: "string \<Rightarrow> bool" where
  "isdigit s = (s \<noteq> [] \<and> list_all isdigit_char s)"

definition Phone_init :: "string \<Rightarrow> exn + Phone" where
  "Phone_init phone =
     (if \<not> (length phone = 10 \<and> isdigit phone)
      then Inl (ValueError ''Phone number must be 10 digits long'')
      else Inr \<lparr>field_value = phone\<rparr>)"

subsection \<open>Calendar dates (Python's datetime module)\<close>

text \<open>
  The calendar arithmetic of the standard library, as \<^verbatim>\<open>datetime.py\<close> writes it (the
  leading underscores of its helper names are dropped).  \<^verbatim>\<open>datetime\<close> is a subclass of
  \<^verbatim>\<open>date\<close>, so its record extends the record of \<^verbatim>\<open>date\<close>.
\<close>

record date =
  year :: int
  month :: int
  day :: int

record datetime = date +
  hour :: int
  minute :: int
  second :: int
  microsecond :: int

definition MINYEAR :: int where "MINYEAR = 1"
definition MAXYEAR :: int where "MAXYEAR = 9999"
definition MAXORDINAL :: int where "MAXORDINAL = 3652059"

definition DAYS_IN_MONTH :: "int list" where
  "DAYS_IN_MONTH = [-1, 31, 28, 31, 30, 31, 30, 31, 31, 30, 31, 30, 31]"

definition DAYS_BEFORE_MONTH :: "int list" where
  "DAYS_BEFORE_MONTH = [-1, 0, 31, 59, 90, 120, 151, 181, 212, 243, 273, 304, 334]"

definition is_leap :: "int \<Rightarrow> bool" where
  "is_leap y = (y mod 4 = 0 \<and> (y mod 100 \<noteq> 0 \<or> y mod 400 = 0))"

definition days_before_year :: "int \<Rightarrow> int" where
  "days_before_year yr = (let y = yr - 1 in y * 365 + y div 4 - y div 100 + y div 400)"

definition days_in_month :: "int \<Rightarrow> int \<Rightarrow> int" where
  "days_in_month y m = (if m = 2 \<and> is_leap y then 29 else DAYS_IN_MONTH ! nat m)"

definition days_before_month :: "int \<Rightarrow> int \<Rightarrow> int" where
  "days_before_month y m =
     DAYS_BEFORE_MONTH ! nat m + (if m > 2 \<and> is_leap y then 1 else 0)"

definition ymd2ord :: "int \<Rightarrow> int \<Rightarrow> int \<Rightarrow> int" where
  "ymd2ord y m d = days_before_year y + days_before_month y m + d"

text \<open>\<^verbatim>\<open>_check_date_fields\<close>, the check of every \<^verbatim>\<open>date\<close> constructor.\<close>

definition check_date_fields :: "int \<Rightarrow> int \<Rightarrow> int \<Rightarrow> exn + unit" where
  "check_date_fields y m d =
     (if \<not> (MINYEAR \<le> y \<and> y \<le> MAXYEAR) then Inl (ValueError ''year is out of range'')
      else if \<not> (1 \<le> m \<and> m \<le> 12) then Inl (ValueError ''month must be in 1..12'')
      else if \<not> (1 \<le> d \<and> d \<le> days_in_month y m)
        then Inl (ValueError ''day is out of range for month'')
      else Inr ())"

definition date_init :: "int \<Rightarrow> int \<Rightarrow> int \<Rightarrow> exn + date" where
  "date_init y m d =
     (case check_date_fields y m d of
        Inl e \<Rightarrow> Inl e
      | Inr _ \<Rightarrow> Inr \<lparr>year = y, month = m, day = d\<rparr>)"

definition datetime_init :: "int \<Rightarrow> int \<Rightarrow> int \<Rightarrow> exn + datetime" where
  \<comment> \<open>\<^verbatim>\<open>datetime(y, m, d)\<close>: the time of day defaults to midnight\<close>
  "datetime_init y m d =
     (case check_date_fields y m d of
        Inl e \<Rightarrow> Inl e
      | Inr _ \<Rightarrow> Inr \<lparr>year = y, month = m, day = d,
                      hour = 0, minute = 0, second = 0, microsecond = 0\<rparr>)"

definition datetime_date :: "datetime \<Rightarrow> date" where
  \<comment> \<open>\<^verbatim>\<open>datetime.date()\<close>\<close>
  "datetime_date dt = \<lparr>year = year dt, month = month dt, day = day dt\<rparr>"

definition date_replace_year :: "date \<Rightarrow> int \<Rightarrow> exn + date" where
  \<comment> \<open>\<^verbatim>\<open>date.replace(year=y)\<close> builds a new date and so checks the fields again\<close>
  "date_replace_year d y = date_init y (month d) (day d)"

definition toordinal :: "date \<Rightarrow> int" where
  "toordinal d = ymd2ord (year d) (month d) (day d)"

definition weekday :: "date \<Rightarrow> int" where
  "weekday d = (toordinal d + 6) mod 7"

text \<open>
  \<^verbatim>\<open>date + timedelta(days=n)\<close> and \<^verbatim>\<open>date - timedelta(days=n)\<close> are computed on ordinals:
  the result is \<^verbatim>\<open>date.fromordinal(self.toordinal() + n)\<close> when that ordinal is between 1 and
  \<^verbatim>\<open>_MAXORDINAL\<close>, and \<^verbatim>\<open>OverflowError\<close> otherwise.  The difference of two dates is the
  difference of their ordinals.  The program uses the dates \<^verbatim>\<open>start\<close> and \<^verbatim>\<open>end\<close> only
  in such sums and differences, so the model keeps them as ordinals.
\<close>

definition ordinal_add_days :: "int \<Rightarrow> int \<Rightarrow> exn + int" where
  "ordinal_add_days ord n =
     (let ord' = ord + n
      in if 0 < ord' \<and> ord' \<le> MAXORDINAL then Inr ord'
         else Inl (OverflowError ''date value out of range''))"

definition DAY_NAMES :: "string list" where
  "DAY_NAMES = [''Monday'', ''Tuesday'', ''Wednesday'', ''Thursday'', ''Friday'',
                ''Saturday'', ''Sunday'']"

definition strftime_A :: "date \<Rightarrow> string" where
  \<comment> \<open>\<^verbatim>\<open>strftime('%A')\<close> in the C locale, which the program never changes\<close>
  "strftime_A d = DAY_NAMES ! nat (weekday d)"

subsubsection \<open>Printing a datetime\<close>

fun decimal :: "nat \<Rightarrow> string" where
  "decimal n =
     (if n < 10 then [char_of (48 + n)]
      else decimal (n div 10) @ [char_of (48 + n mod 10)])"

definition zero_pad :: "nat \<Rightarrow> int \<Rightarrow> string" where
  \<comment> \<open>\<^verbatim>\<open>'%0wd' % n\<close> for \<open>n\<close> that is not negative\<close>
  "zero_pad w n =
     (let s = decimal (nat n) in replicate (w - length s) (CHR ''0'') @ s)"

definition format_time :: "int \<Rightarrow> int \<Rightarrow> int \<Rightarrow> int \<Rightarrow> string" where
  \<comment> \<open>\<^verbatim>\<open>_format_time\<close> with \<^verbatim>\<open>timespec='auto'\<close>\<close>
  "format_time hh mm ss us =
     zero_pad 2 hh @ '':'' @ zero_pad 2 mm @ '':'' @ zero_pad 2 ss
       @ (if us \<noteq> 0 then ''.'' @ zero_pad 6 us else [])"

definition datetime_str :: "datetime \<Rightarrow> string" where
  \<comment> \<open>\<^verbatim>\<open>datetime.__str__\<close>, that is \<^verbatim>\<open>isoformat(sep=' ')\<close> without a time zone\<close>
  "datetime_str dt =
     zero_pad 4 (year dt) @ ''-'' @ zero_pad 2 (month dt) @ ''-'' @ zero_pad 2 (day dt)
       @ '' '' @ format_time (hour dt) (minute dt) (second dt) (microsecond dt)"

subsection \<open>Parsing a date: \<^verbatim>\<open>datetime.strptime(s, '%d.%m.%Y')\<close>\<close>

text \<open>
  \<^verbatim>\<open>_strptime\<close> turns the format into a regular expression, one named group for each
  directive, and matches it against the start of the input with \<^verbatim>\<open>re.match\<close>.  The
  expressions needed here are built from character classes, concatenation, ordered
  alternatives and named groups.  \<open>matches r s\<close> lists, in the order in which a
  backtracking matcher finds them, the ways in which \<open>r\<close> matches a prefix of \<open>s\<close>: the
  groups captured and the rest of the input.  \<^verbatim>\<open>re.match\<close> returns the first of them.
\<close>

datatype 'c regex =
    Class "'c \<Rightarrow> bool"
  | Seq "'c regex" "'c regex"
  | Alt "'c regex" "'c regex"
  | Group string "'c regex"

fun matches :: "'c regex \<Rightarrow> 'c list \<Rightarrow> ((string \<times> 'c list) list \<times> 'c list) list" where
  "matches (Class p) s =
     (case s of [] \<Rightarrow> [] | c # cs \<Rightarrow> if p c then [([], cs)] else [])"
| "matches (Seq a b) s =
     concat (map (\<lambda>(g1, r1). map (\<lambda>(g2, r2). (g1 @ g2, r2)) (matches b r1)) (matches a s))"
| "matches (Alt a b) s = matches a s @ matches b s"
| "matches (Group nm a) s =
     map (\<lambda>(g, r). ((nm, take (length s - length r) s) # g, r)) (matches a s)"

definition re_match ::
  "'c regex \<Rightarrow> 'c list \<Rightarrow> ((string \<times> 'c list) list \<times> 'c list) option" where
  "re_match r s = (case matches r s of [] \<Rightarrow> None | m # _ \<Rightarrow> Some m)"

text \<open>
  The classes of the format's expression, on code points.  The expression is compiled with
  \<^verbatim>\<open>re.IGNORECASE\<close>; no character has a case variant among the digits, the space and the
  dot, so a literal and a range \<^verbatim>\<open>[a-b]\<close> match the ASCII characters they name and no other.
\<close>

definition lit :: "char \<Rightarrow> int regex" where
  "lit c = Class (\<lambda>x. x = of_char c)"

definition char_range :: "char \<Rightarrow> char \<Rightarrow> int regex" where
  \<comment> \<open>the class \<^verbatim>\<open>[a-b]\<close>\<close>
  "char_range a b = Class (\<lambda>x. of_char a \<le> x \<and> x \<le> of_char b)"

text \<open>
  \<^verbatim>\<open>\d\<close> matches every character with the Unicode property of a decimal digit (category
  Nd), and \<^verbatim>\<open>int\<close> reads every such character as its digit.  These characters come in runs
  of ten, from the digit zero of a script to its digit nine; \<open>DECIMAL_ZEROS\<close> lists the
  code points of the zeros in Unicode 14.0, the version of Python 3.11.
\<close>

definition DECIMAL_ZEROS :: "int list" where
  "DECIMAL_ZEROS =
     [48, 1632, 1776, 1984, 2406, 2534, 2662, 2790, 2918, 3046, 3174, 3302, 3430, 3558,
      3664, 3792, 3872, 4160, 4240, 6112, 6160, 6470, 6608, 6784, 6800, 6992, 7088, 7232,
      7248, 42528, 43216, 43264, 43472, 43504, 43600, 44016, 65296, 66720, 68912, 69734,
      69872, 69942, 70096, 70384, 70736, 70864, 71248, 71360, 71472, 71904, 72016, 72784,
      73040, 73120, 92768, 92864, 93008, 120782, 120792, 120802, 120812, 120822, 123200,
      123632, 125264, 130032]"

definition decimal_value :: "int \<Rightarrow> int option" where
  \<comment> \<open>the digit that a decimal digit character stands for\<close>
  "decimal_value c =
     (case filter (\<lambda>z. z \<le> c \<and> c < z + 10) DECIMAL_ZEROS of
        [] \<Rightarrow> None
      | z # _ \<Rightarrow> Some (c - z))"

definition is_decimal :: "int \<Rightarrow> bool" where
  "is_decimal c = (decimal_value c \<noteq> None)"

definition re_digit :: "int regex" where
  \<comment> \<open>\<^verbatim>\<open>\d\<close>\<close>
  "re_digit = Class is_decimal"

text \<open>The entries of \<^verbatim>\<open>TimeRE\<close> for the three directives:
  \<^verbatim>\<open>'d': r"(?P<d>3[0-1]|[1-2]\d|0[1-9]|[1-9]| [1-9])"\<close>,
  \<^verbatim>\<open>'m': r"(?P<m>1[0-2]|0[1-9]|[1-9])"\<close>,
  \<^verbatim>\<open>'Y': r"(?P<Y>\d\d\d\d)"\<close>.\<close>

definition re_d :: "int regex" where
  "re_d = Group ''d''
     (Alt (Seq (lit (CHR ''3'')) (char_range (CHR ''0'') (CHR ''1'')))
     (Alt (Seq (char_range (CHR ''1'') (CHR ''2'')) re_digit)
     (Alt (Seq (lit (CHR ''0'')) (char_range (CHR ''1'') (CHR ''9'')))
     (Alt (char_range (CHR ''1'') (CHR ''9''))
          (Seq (lit (CHR '' '')) (char_range (CHR ''1'') (CHR ''9'')))))))"

definition re_m :: "int regex" where
  "re_m = Group ''m''
     (Alt (Seq (lit (CHR ''1'')) (char_range (CHR ''0'') (CHR ''2'')))
     (Alt (Seq (lit (CHR ''0'')) (char_range (CHR ''1'') (CHR ''9'')))
          (char_range (CHR ''1'') (CHR ''9''))))"

definition re_Y :: "int regex" where
  "re_Y = Group ''Y'' (Seq re_digit (Seq re_digit (Seq re_digit re_digit)))"

definition format_regex :: "int regex" where
  \<comment> \<open>the pattern of the format \<^verbatim>\<open>'%d.%m.%Y'\<close>\<close>
  "format_regex = Seq re_d (Seq (lit (CHR ''.'')) (Seq re_m (Seq (lit (CHR ''.'')) re_Y)))"

text \<open>
  \<^verbatim>\<open>int(text)\<close> for the text of a group: decimal digits, after white space that
  \<^verbatim>\<open>int\<close> skips (the group \<open>d\<close> may start with a space).  \<open>INT_SPACES\<close> lists the
  characters that \<^verbatim>\<open>int\<close> skips.  A group text has no other character than these, so the
  sign and the underscores that \<^verbatim>\<open>int\<close> also reads, and its error for another character,
  are left out.
\<close>

definition INT_SPACES :: "int list" where
  "INT_SPACES =
     [9, 10, 11, 12, 13, 32, 133, 160, 5760, 8192, 8193, 8194, 8195, 8196, 8197, 8198,
      8199, 8200, 8201, 8202, 8232, 8233, 8239, 8287, 12288]"

definition py_int :: "int list \<Rightarrow> int" where
  "py_int s =
     foldl (\<lambda>acc c. 10 * acc + (case decimal_value c of Some v \<Rightarrow> v | None \<Rightarrow> 0)) 0
       (dropWhile (\<lambda>c. c \<in> set INT_SPACES) s)"

definition group_text :: "(string \<times> int list) list \<Rightarrow> string \<Rightarrow> int list" where
  \<comment> \<open>\<^verbatim>\<open>found.groupdict()[nm]\<close>; every group of the format takes part in a match\<close>
  "group_text gs nm = (case map_of gs nm of Some t \<Rightarrow> t | None \<Rightarrow> [])"

definition strptime :: "int list \<Rightarrow> exn + datetime" where
  "strptime data_string =
     (case re_match format_regex data_string of
        None \<Rightarrow> Inl (ValueError ''time data does not match format'')
      | Some (found, rest) \<Rightarrow>
          if rest \<noteq> [] then Inl (ValueError ''unconverted data remains'')
          else datetime_init (py_int (group_text found ''Y'')) (py_int (group_text found ''m''))
                 (py_int (group_text found ''d'')))"

type_synonym Birthday = "datetime Field"

definition Birthday_init :: "int list \<Rightarrow> exn + Birthday" where
  \<comment> \<open>\<^verbatim>\<open>Birthday(birthday)\<close>, with the string given by its code points\<close>
  "Birthday_init birthday =
     (case strptime birthday of
        Inl (ValueError _) \<Rightarrow> Inl (ValueError ''Date of birth must be in DD.MM.YYYY format'')
      | Inl e \<Rightarrow> Inl e
      | Inr d \<Rightarrow> Inr \<lparr>field_value = d\<rparr>)"

definition Field_str :: "('a \<Rightarrow> string) \<Rightarrow> 'a Field \<Rightarrow> string" where
  \<comment> \<open>\<^verbatim>\<open>Field.__str__\<close>: \<^verbatim>\<open>str(self.value)\<close>, with \<^verbatim>\<open>str\<close> of the value's type given\<close>
  "Field_str str_of f = str_of (field_value f)"

subsection \<open>Record\<close>

record Record =
  name :: Name
  birthday :: "Birthday option"
  phones :: "Phone list"

definition Record_init :: "string \<Rightarrow> string option \<Rightarrow> exn + Record" where
  \<comment> \<open>\<^verbatim>\<open>Record(name, birthday=None)\<close>; an empty string is false in a condition\<close>
  "Record_init nm bday =
     (case bday of
        None \<Rightarrow> Inr \<lparr>name = Name_init nm, birthday = None, phones = []\<rparr>
      | Some b \<Rightarrow>
          if b = [] then Inr \<lparr>name = Name_init nm, birthday = None, phones = []\<rparr>
          else (case Birthday_init (codes b) of
                  Inl e \<Rightarrow> Inl e
                | Inr bd \<Rightarrow> Inr \<lparr>name = Name_init nm, birthday = Some bd, phones = []\<rparr>))"

definition add_phone :: "Record \<Rightarrow> string \<Rightarrow> exn + Record" where
  "add_phone r phone_number =
     (case Phone_init phone_number of
        Inl e \<Rightarrow> Inl e
      | Inr phone \<Rightarrow> Inr (r\<lparr>phones := phones r @ [phone]\<rparr>))"

text \<open>
  \<^verbatim>\<open>find_phone\<close> returns the first \<^verbatim>\<open>Phone\<close> object of the list whose value is the
  number, or \<^verbatim>\<open>None\<close>.  The object is returned by reference and \<^verbatim>\<open>edit_phone\<close> assigns
  to its \<^verbatim>\<open>value\<close>, so the model returns the object's position in the list.  Every
  \<^verbatim>\<open>Phone\<close> is created by \<^verbatim>\<open>add_phone\<close> for one list entry, so no two entries are the same
  object.
\<close>

fun find_phone_in :: "Phone list \<Rightarrow> string \<Rightarrow> nat option" where
  "find_phone_in [] phone_number = None"
| "find_phone_in (phone # rest) phone_number =
     (if field_value phone = phone_number then Some 0
      else map_option Suc (find_phone_in rest phone_number))"

definition find_phone :: "Record \<Rightarrow> string \<Rightarrow> nat option" where
  "find_phone r phone_number = find_phone_in (phones r) phone_number"

definition edit_phone :: "Record \<Rightarrow> string \<Rightarrow> string \<Rightarrow> bool \<times> Record" where
  \<comment> \<open>the returned value and the record after the call; an object is true in a condition\<close>
  "edit_phone r old_number new_number =
     (case find_phone r old_number of
        Some i \<Rightarrow>
          (True, r\<lparr>phones := (phones r)[i := (phones r ! i)\<lparr>field_value := new_number\<rparr>]\<rparr>)
      | None \<Rightarrow> (False, r))"

definition add_birthday :: "Record \<Rightarrow> string \<Rightarrow> exn + Record" where
  "add_birthday r bday =
     (case Birthday_init (codes bday) of
        Inl e \<Rightarrow> Inl e
      | Inr b \<Rightarrow> Inr (r\<lparr>birthday := Some b\<rparr>))"

fun join :: "string \<Rightarrow> string list \<Rightarrow> string" where
  \<comment> \<open>\<^verbatim>\<open>sep.join(xs)\<close>\<close>
  "join sep [] = []"
| "join sep [x] = x"
| "join sep (x # y # ys) = x @ sep @ join sep (y # ys)"

definition Record_str :: "Record \<Rightarrow> string" where
  "Record_str r =
     ''Contact name: '' @ field_value (name r) @ '', phones: ''
       @ join ''; '' (map field_value (phones r))"

subsection \<open>AddressBook\<close>

text \<open>
  The book is a \<^verbatim>\<open>UserDict\<close>; its \<^verbatim>\<open>data\<close> is a dictionary from names to records.  A
  Python dictionary keeps its keys in the order of their first insertion, and the handlers
  iterate over it, so the model is an association list in that order.  A book the program
  can build has every key once.
\<close>

type_synonym AddressBook = "(string \<times> Record) list"

fun dict_set :: "'k \<Rightarrow> 'v \<Rightarrow> ('k \<times> 'v) list \<Rightarrow> ('k \<times> 'v) list" where
  \<comment> \<open>\<^verbatim>\<open>d[k] = v\<close>: a key that is present keeps its place, a new key goes to the end\<close>
  "dict_set k v [] = [(k, v)]"
| "dict_set k v ((k', v') # d) =
     (if k' = k then (k, v) # d else (k', v') # dict_set k v d)"

definition dict_get :: "('k \<times> 'v) list \<Rightarrow> 'k \<Rightarrow> 'v option" where
  \<comment> \<open>\<^verbatim>\<open>d.get(k)\<close>\<close>
  "dict_get d k = map_of d k"

definition add_record :: "AddressBook \<Rightarrow> Record \<Rightarrow> AddressBook" where
  \<comment> \<open>the argument is a \<^verbatim>\<open>Record\<close> by its type, so the \<^verbatim>\<open>isinstance\<close> test holds\<close>
  "add_record book r = dict_set (field_value (name r)) r book"

text \<open>The methods \<^verbatim>\<open>find\<close> and \<^verbatim>\<open>delete\<close> of the book.\<close>

definition find_record :: "AddressBook \<Rightarrow> string \<Rightarrow> Record option" where
  "find_record book nm = dict_get book nm"

definition delete_record :: "AddressBook \<Rightarrow> string \<Rightarrow> AddressBook" where
  "delete_record book nm =
     (if nm \<in> set (map fst book) then filter (\<lambda>(k, _). k \<noteq> nm) book else book)"

text \<open>
  \<^verbatim>\<open>get_birthdays_per_week\<close>.  The current date, \<^verbatim>\<open>datetime.today().date()\<close>, is the
  parameter \<open>today\<close>.  \<^verbatim>\<open>birthday_dict\<close> is a \<^verbatim>\<open>defaultdict(list)\<close>:
  \<^verbatim>\<open>birthday_dict[k].append(x)\<close> creates the key \<open>k\<close> with an empty list when it is new.
  Reading \<^verbatim>\<open>record.birthday.value\<close> when the birthday is \<^verbatim>\<open>None\<close> raises
  \<^verbatim>\<open>AttributeError\<close>.
\<close>

definition dict_append :: "('k \<times> 'v list) list \<Rightarrow> 'k \<Rightarrow> 'v \<Rightarrow> ('k \<times> 'v list) list" where
  "dict_append d k x =
     dict_set k ((case dict_get d k of None \<Rightarrow> [] | Some xs \<Rightarrow> xs) @ [x]) d"

fun birthdays_loop ::
  "date \<Rightarrow> int \<Rightarrow> (string \<times> Record) list \<Rightarrow> (string \<times> string list) list
     \<Rightarrow> exn + (string \<times> string list) list" where
  "birthdays_loop today end [] birthday_dict = Inr birthday_dict"
| "birthdays_loop today end ((nm, r) # items) birthday_dict =
     (case birthday r of
        None \<Rightarrow> Inl (AttributeError ''NoneType object has no attribute value'')
      | Some b \<Rightarrow>
          (case date_replace_year (datetime_date (field_value b)) (year today) of
             Inl e \<Rightarrow> Inl e
           | Inr birthday_this_year \<Rightarrow>
               (let delta_days = toordinal birthday_this_year - end
                in if delta_days \<le> 5 \<and> delta_days > -2
                   then (let day_of_week = strftime_A birthday_this_year;
                             day_of_week' =
                               (if day_of_week = ''Saturday'' \<or> day_of_week = ''Sunday''
                                then ''Monday'' else day_of_week)
                         in birthdays_loop today end items
                              (dict_append birthday_dict day_of_week' nm))
                   else birthdays_loop today end items birthday_dict)))"

definition get_birthdays_per_week ::
  "date \<Rightarrow> AddressBook \<Rightarrow> exn + (string \<times> string list) list" where
  "get_birthdays_per_week today book =
     (case ordinal_add_days (toordinal today) (- weekday today) of
        Inl e \<Rightarrow> Inl e
      | Inr start \<Rightarrow>
          (case ordinal_add_days start 6 of
             Inl e \<Rightarrow> Inl e
           | Inr end \<Rightarrow> birthdays_loop today end book []))"

subsection \<open>The command handlers\<close>

text \<open>
  A handler reads and changes the book it is given, so its model takes the book and returns
  the book after the call together with what the call produced: \<open>Inr\<close> of the returned
  value, or \<open>Inl\<close> of the exception that left it.  A record that \<^verbatim>\<open>book.find\<close> returned
  is the object stored in the book, and a change to it is a change of the book's entry.

  Unpacking \<^verbatim>\<open>name, phone = args\<close> or \<^verbatim>\<open>[name] = args\<close> from a list of another length
  raises \<^verbatim>\<open>ValueError\<close>.
\<close>

definition unpack_error :: "nat \<Rightarrow> nat \<Rightarrow> exn" where
  "unpack_error expected got =
     (if got < expected then ValueError ''not enough values to unpack''
      else ValueError ''too many values to unpack'')"

definition VErrorPhone :: string where
  "VErrorPhone = ''The phone number must consist of 10 digits''"

definition VErrorBirthday :: string where
  "VErrorBirthday = ''Date of birth must be in DD.MM.YYYY format''"

definition str_in :: "string \<Rightarrow> string \<Rightarrow> bool" where
  \<comment> \<open>\<^verbatim>\<open>a in b\<close> on strings\<close>
  "str_in a b = sublist a b"

definition truthy :: "string \<Rightarrow> bool" where
  \<comment> \<open>a string as a condition\<close>
  "truthy s = (s \<noteq> [])"

text \<open>
  \<^verbatim>\<open>inner\<close>, the function the decorator \<^verbatim>\<open>input_error\<close> puts in place of a handler.  The
  condition of its \<^verbatim>\<open>ValueError\<close> clause is \<^verbatim>\<open>(str(VError) in VErrorPhone) or VErrorBirthday\<close>;
  were it false, the function would end without a \<^verbatim>\<open>return\<close> and give \<^verbatim>\<open>None\<close>.  An
  exception of a class it does not name leaves it.
\<close>

definition inner :: "exn + string \<Rightarrow> exn + string option" where
  "inner r =
     (case r of
        Inr s \<Rightarrow> Inr (Some s)
      | Inl KeyError \<Rightarrow> Inr (Some ''Can't find the contact.'')
      | Inl (ValueError VError) \<Rightarrow>
          if str_in VError VErrorPhone \<or> truthy VErrorBirthday
          then Inr (Some ''Give the correct data, please'')
          else Inr None
      | Inl IndexError \<Rightarrow> Inr (Some ''No arguments.'')
      | Inl e \<Rightarrow> Inl e)"

definition input_error ::
  "(exn + string) \<times> AddressBook \<Rightarrow> (exn + string option) \<times> AddressBook" where
  "input_error out = (case out of (r, book) \<Rightarrow> (inner r, book))"

definition add_contact_func :: "string list \<Rightarrow> AddressBook \<Rightarrow> (exn + string) \<times> AddressBook" where
  "add_contact_func args book =
     (case args of
        [nm, phone] \<Rightarrow>
          (case Record_init nm None of
             Inl e \<Rightarrow> (Inl e, book)
           | Inr record0 \<Rightarrow>
               (case add_phone record0 phone of
                  Inl e \<Rightarrow> (Inl e, book)
                | Inr record1 \<Rightarrow> (Inr ''Contact added.'', add_record book record1)))
      | _ \<Rightarrow> (Inl (unpack_error 2 (length args)), book))"

definition change_contact_func :: "string list \<Rightarrow> AddressBook \<Rightarrow> (exn + string) \<times> AddressBook" where
  "change_contact_func args book =
     (case args of
        [nm, phone] \<Rightarrow>
          (case find_record book nm of
             Some r \<Rightarrow>
               (case phones r of
                  [] \<Rightarrow> (Inl IndexError, book)
                | first # _ \<Rightarrow>
                    (case edit_phone r (field_value first) phone of
                       (_, r') \<Rightarrow> (Inr ''Contact updated.'', dict_set nm r' book)))
           | None \<Rightarrow> (Inr ''Not found.'', book))
      | _ \<Rightarrow> (Inl (unpack_error 2 (length args)), book))"

definition show_phone_func :: "string list \<Rightarrow> AddressBook \<Rightarrow> (exn + string) \<times> AddressBook" where
  "show_phone_func args book =
     (case args of
        [nm] \<Rightarrow>
          (case find_record book nm of
             Some r \<Rightarrow> (Inr (join '', '' (map (Field_str id) (phones r))), book)
           | None \<Rightarrow> (Inr ''Not found.'', book))
      | _ \<Rightarrow> (Inl (unpack_error 1 (length args)), book))"

definition show_all_func :: "AddressBook \<Rightarrow> (exn + string) \<times> AddressBook" where
  "show_all_func book =
     (if book = [] then (Inr ''No contacts stored.'', book)
      else (Inr (join [CHR 0x0A]
                  (map (\<lambda>(_, r). Field_str id (name r) @ '': ''
                          @ join '', '' (map (Field_str id) (phones r))) book)),
            book))"

definition add_birthday_func :: "string list \<Rightarrow> AddressBook \<Rightarrow> (exn + string) \<times> AddressBook" where
  "add_birthday_func args book =
     (case args of
        [nm, bday] \<Rightarrow>
          (case find_record book nm of
             Some r \<Rightarrow>
               (case add_birthday r bday of
                  Inl e \<Rightarrow> (Inl e, book)
                | Inr r' \<Rightarrow> (Inr ''Birthday added.'', dict_set nm r' book))
           | None \<Rightarrow> (Inr ''Contact not found.'', book))
      | _ \<Rightarrow> (Inl (unpack_error 2 (length args)), book))"

definition show_birthday_func :: "string list \<Rightarrow> AddressBook \<Rightarrow> (exn + string) \<times> AddressBook" where
  "show_birthday_func args book =
     (case args of
        [nm] \<Rightarrow>
          (case find_record book nm of
             Some r \<Rightarrow>
               (case birthday r of
                  Some b \<Rightarrow> (Inr (Field_str datetime_str b), book)
                | None \<Rightarrow> (Inr ''No birthday found for this contact.'', book))
           | None \<Rightarrow> (Inr ''No birthday found for this contact.'', book))
      | _ \<Rightarrow> (Inl (unpack_error 1 (length args)), book))"

definition show_birthdays_next_week_func ::
  "date \<Rightarrow> AddressBook \<Rightarrow> (exn + string) \<times> AddressBook" where
  "show_birthdays_next_week_func today book =
     (case get_birthdays_per_week today book of
        Inl e \<Rightarrow> (Inl e, book)
      | Inr birthdays_next_week \<Rightarrow>
          if birthdays_next_week = [] then (Inr ''No birthdays next week.'', book)
          else (Inr (join [CHR 0x0A]
                      (map (\<lambda>(d, names). d @ '': '' @ join '', '' names)
                         birthdays_next_week)),
                book))"

text \<open>The decorated handlers, as the command loop calls them.\<close>

definition add_contact :: "string list \<Rightarrow> AddressBook \<Rightarrow> (exn + string option) \<times> AddressBook" where
  "add_contact args book = input_error (add_contact_func args book)"

definition change_contact :: "string list \<Rightarrow> AddressBook \<Rightarrow> (exn + string option) \<times> AddressBook" where
  "change_contact args book = input_error (change_contact_func args book)"

definition show_phone :: "string list \<Rightarrow> AddressBook \<Rightarrow> (exn + string option) \<times> AddressBook" where
  "show_phone args book = input_error (show_phone_func args book)"

definition show_all :: "AddressBook \<Rightarrow> (exn + string option) \<times> AddressBook" where
  "show_all book = input_error (show_all_func book)"

definition add_birthday_cmd :: "string list \<Rightarrow> AddressBook \<Rightarrow> (exn + string option) \<times> AddressBook" where
  \<comment> \<open>the handler \<^verbatim>\<open>add_birthday\<close>; the method of \<^verbatim>\<open>Record\<close> has the same name\<close>
  "add_birthday_cmd args book = input_error (add_birthday_func args book)"

definition show_birthday :: "string list \<Rightarrow> AddressBook \<Rightarrow> (exn + string option) \<times> AddressBook" where
  "show_birthday args book = input_error (show_birthday_func args book)"

definition show_birthdays_next_week ::
  "date \<Rightarrow> AddressBook \<Rightarrow> (exn + string option) \<times> AddressBook" where
  "show_birthdays_next_week today book = input_error (show_birthdays_next_week_func today book)"

text \<open>The seven handlers by name, and the call the command loop makes for each.\<close>

datatype handler =
  Add | Change | ShowPhone | ShowAll | AddBirthday | ShowBirthday | Birthdays

fun call_handler ::
  "handler \<Rightarrow> date \<Rightarrow> string list \<Rightarrow> AddressBook \<Rightarrow> (exn + string option) \<times> AddressBook" where
  "call_handler Add today args book = add_contact args book"
| "call_handler Change today args book = change_contact args book"
| "call_handler ShowPhone today args book = show_phone args book"
| "call_handler ShowAll today args book = show_all book"
| "call_handler AddBirthday today args book = add_birthday_cmd args book"
| "call_handler ShowBirthday today args book = show_birthday args book"
| "call_handler Birthdays today args book = show_birthdays_next_week today book"

subsection \<open>Notions the specification uses\<close>

definition ascii_digit :: "char \<Rightarrow> bool" where
  \<comment> \<open>one of the ten characters 0 to 9\<close>
  "ascii_digit c = (48 \<le> (of_char c :: nat) \<and> (of_char c :: nat) \<le> 57)"

definition failure_messages :: "string list" where
  \<comment> \<open>the three messages of \<^verbatim>\<open>input_error\<close> and the failure outputs of the single handlers\<close>
  "failure_messages =
     [''Can't find the contact.'', ''Give the correct data, please'', ''No arguments.'',
      ''Not found.'', ''Contact not found.'', ''No birthday found for this contact.'',
      ''No contacts stored.'', ''No birthdays next week.'']"

definition failed :: "exn + string option \<Rightarrow> bool" where
  \<comment> \<open>a call that did not return a success string\<close>
  "failed out =
     (case out of
        Inl e \<Rightarrow> True
      | Inr None \<Rightarrow> True
      | Inr (Some msg) \<Rightarrow> msg \<in> set failure_messages)"

definition birthday_this_year :: "date \<Rightarrow> Record \<Rightarrow> date option" where
  \<comment> \<open>the birthday of a record moved to the current year, when the record has a birthday
     and that day exists in the current year\<close>
  "birthday_this_year today r =
     (case birthday r of
        None \<Rightarrow> None
      | Some b \<Rightarrow>
          (case date_replace_year (datetime_date (field_value b)) (year today) of
             Inl e \<Rightarrow> None
           | Inr d \<Rightarrow> Some d))"

definition listed :: "(string \<times> string list) list \<Rightarrow> string \<Rightarrow> string \<Rightarrow> bool" where
  \<comment> \<open>the result of the weekly query has the name under the weekday \<open>k\<close>\<close>
  "listed d k nm = (\<exists>names. (k, names) \<in> set d \<and> nm \<in> set names)"

definition week_end :: "date \<Rightarrow> int" where
  \<comment> \<open>the ordinal of the Sunday that ends the week of today\<close>
  "week_end today = toordinal today - weekday today + 6"

definition bucket_name :: "date \<Rightarrow> string" where
  \<comment> \<open>Saturday (5) and Sunday (6) go to Monday, another day keeps its own name\<close>
  "bucket_name d =
     (if weekday d = 5 \<or> weekday d = 6 then ''Monday'' else DAY_NAMES ! nat (weekday d))"

definition dd_mm_yyyy :: "datetime \<Rightarrow> string" where
  \<comment> \<open>a date written as DD.MM.YYYY\<close>
  "dd_mm_yyyy dt = zero_pad 2 (day dt) @ ''.'' @ zero_pad 2 (month dt) @ ''.'' @ zero_pad 4 (year dt)"

text \<open>
  What a regular expression matches, said without a matcher: \<open>derives r t g\<close> when \<open>r\<close>
  matches the whole text \<open>t\<close> and its groups capture \<open>g\<close>.
\<close>

fun derives :: "'c regex \<Rightarrow> 'c list \<Rightarrow> (string \<times> 'c list) list \<Rightarrow> bool" where
  "derives (Class p) t g = (\<exists>c. t = [c] \<and> p c \<and> g = [])"
| "derives (Seq a b) t g =
     (\<exists>t1 t2 g1 g2. t = t1 @ t2 \<and> g = g1 @ g2 \<and> derives a t1 g1 \<and> derives b t2 g2)"
| "derives (Alt a b) t g = (derives a t g \<or> derives b t g)"
| "derives (Group nm a) t g = (\<exists>g'. g = (nm, t) # g' \<and> derives a t g')"

text \<open>
  The texts of a day, a month and a year, as lists of code points.  A day is an ASCII
  digit 1 to 9, alone or after an ASCII zero or a space, or the ASCII digit 1 or 2 with
  any decimal digit of Unicode after it, or 30 or 31 in ASCII digits; a month is an ASCII
  digit 1 to 9, alone or after an ASCII zero, or 10, 11 or 12 in ASCII digits; a year is
  four decimal digits of Unicode.  \<open>reads_as s y m d\<close>: the string is such a day, a dot,
  such a month, a dot and such a year, and \<open>d\<close>, \<open>m\<close>, \<open>y\<close> are their numbers.
  \<open>is_DD_MM_YYYY s\<close>: two ASCII digits, a dot, two ASCII digits, a dot, four ASCII digits.
\<close>

definition ascii_digit_code :: "int \<Rightarrow> bool" where
  "ascii_digit_code c = (48 \<le> c \<and> c \<le> 57)"

definition digit_1_9 :: "int \<Rightarrow> bool" where
  "digit_1_9 c = (49 \<le> c \<and> c \<le> 57)"

definition is_day_text :: "int list \<Rightarrow> bool" where
  "is_day_text t =
     (case t of
        [a] \<Rightarrow> digit_1_9 a
      | [a, b] \<Rightarrow>
          (a = of_char (CHR ''3'') \<and> (b = of_char (CHR ''0'') \<or> b = of_char (CHR ''1'')))
          \<or> ((a = of_char (CHR ''1'') \<or> a = of_char (CHR ''2'')) \<and> is_decimal b)
          \<or> ((a = of_char (CHR ''0'') \<or> a = of_char (CHR '' '')) \<and> digit_1_9 b)
      | _ \<Rightarrow> False)"

definition is_month_text :: "int list \<Rightarrow> bool" where
  "is_month_text t =
     (case t of
        [a] \<Rightarrow> digit_1_9 a
      | [a, b] \<Rightarrow>
          (a = of_char (CHR ''1'')
             \<and> (b = of_char (CHR ''0'') \<or> b = of_char (CHR ''1'') \<or> b = of_char (CHR ''2'')))
          \<or> (a = of_char (CHR ''0'') \<and> digit_1_9 b)
      | _ \<Rightarrow> False)"

definition is_year_text :: "int list \<Rightarrow> bool" where
  "is_year_text t = (length t = 4 \<and> list_all is_decimal t)"

definition reads_as :: "int list \<Rightarrow> int \<Rightarrow> int \<Rightarrow> int \<Rightarrow> bool" where
  "reads_as s y m d =
     (\<exists>dt mt yt. s = dt @ codes ''.'' @ mt @ codes ''.'' @ yt
        \<and> is_day_text dt \<and> is_month_text mt \<and> is_year_text yt
        \<and> y = py_int yt \<and> m = py_int mt \<and> d = py_int dt)"

definition real_date :: "int \<Rightarrow> int \<Rightarrow> int \<Rightarrow> bool" where
  "real_date y m d =
     (1 \<le> y \<and> y \<le> 9999 \<and> 1 \<le> m \<and> m \<le> 12 \<and> 1 \<le> d \<and> d \<le> days_in_month y m)"

definition is_DD_MM_YYYY :: "int list \<Rightarrow> bool" where
  "is_DD_MM_YYYY s =
     (length s = 10 \<and> s ! 2 = of_char (CHR ''.'') \<and> s ! 5 = of_char (CHR ''.'')
      \<and> list_all ascii_digit_code (take 2 s @ take 2 (drop 3 s) @ drop 6 s))"

definition midnight :: "int \<Rightarrow> int \<Rightarrow> int \<Rightarrow> datetime" where
  "midnight y m d = \<lparr>year = y, month = m, day = d,
                      hour = 0, minute = 0, second = 0, microsecond = 0\<rparr>"

subsection \<open>Example data\<close>

definition alice0 :: Record where
  \<comment> \<open>the record that the command \<^verbatim>\<open>add alice 1234567890\<close> stores\<close>
  "alice0 = \<lparr>name = \<lparr>field_value = ''alice''\<rparr>, birthday = None,
              phones = [\<lparr>field_value = ''1234567890''\<rparr>]\<rparr>"

definition monday_2024_06_03 :: date where
  "monday_2024_06_03 = \<lparr>year = 2024, month = 6, day = 3\<rparr>"

definition with_birthday :: "string \<Rightarrow> int \<Rightarrow> int \<Rightarrow> int \<Rightarrow> Record" where
  "with_birthday nm y m d =
     \<lparr>name = \<lparr>field_value = nm\<rparr>,
      birthday = Some \<lparr>field_value = \<lparr>year = y, month = m, day = d,
                                       hour = 0, minute = 0, second = 0, microsecond = 0\<rparr>\<rparr>,
      phones = [\<lparr>field_value = ''1234567890''\<rparr>]\<rparr>"

definition week_book :: AddressBook where
  "week_book = [(''alice'', with_birthday ''alice'' 1990 6 5),
                (''bob'', with_birthday ''bob'' 1995 6 8),
                (''carl'', with_birthday ''carl'' 1999 6 10)]"

definition monday_2023_06_05 :: date where
  "monday_2023_06_05 = \<lparr>year = 2023, month = 6, day = 5\<rparr>"

definition leap_book :: AddressBook where
  "leap_book = [(''alice'', with_birthday ''alice'' 1990 6 10),
                (''bob'', with_birthday ''bob'' 2000 2 29)]"

definition arabic_year_text :: "int list" where
  \<comment> \<open>05.06. and the year 1990 in Arabic-Indic digits (U+0661 U+0669 U+0669 U+0660)\<close>
  "arabic_year_text = codes ''05.06.'' @ [1633, 1641, 1641, 1632]"

section \<open>Properties\<close>

subsection \<open>Phone construction\<close>

lemma isdigit_list_all: "length s = 10 \<Longrightarrow> isdigit s = list_all isdigit_char s"
  by (auto simp: isdigit_def)

lemma ascii_digit_isdigit_char: "ascii_digit c \<Longrightarrow> isdigit_char c"
  by (simp add: ascii_digit_def isdigit_char_def)

text \<open>
  Claim C3, as the specification has it: a phone is built, with the value given, exactly
  from the strings of ten ASCII digits.  The program asks \<^verbatim>\<open>str.isdigit\<close>, which is also
  true of digits outside ASCII, so the string of ten superscript twos is a phone.
\<close>

theorem Phone_init_superscript_counterexample:
  "Phone_init [CHR 0xB2, CHR 0xB2, CHR 0xB2, CHR 0xB2, CHR 0xB2,
               CHR 0xB2, CHR 0xB2, CHR 0xB2, CHR 0xB2, CHR 0xB2]
     = Inr \<lparr>field_value = [CHR 0xB2, CHR 0xB2, CHR 0xB2, CHR 0xB2, CHR 0xB2,
                           CHR 0xB2, CHR 0xB2, CHR 0xB2, CHR 0xB2, CHR 0xB2]\<rparr>
   \<and> \<not> list_all ascii_digit [CHR 0xB2, CHR 0xB2, CHR 0xB2, CHR 0xB2, CHR 0xB2,
                              CHR 0xB2, CHR 0xB2, CHR 0xB2, CHR 0xB2, CHR 0xB2]"
  by (simp add: Phone_init_def isdigit_def isdigit_char_def ascii_digit_def)

text \<open>
  Claim C3, amended: a phone is built, with the value given unchanged, exactly from the
  strings of ten characters that are all digits in the sense of \<^verbatim>\<open>str.isdigit\<close>; every
  other string raises \<^verbatim>\<open>ValueError\<close>.  Every string of ten ASCII digits is among the
  accepted ones.
\<close>

theorem Phone_init_iff:
  "(length s = 10 \<and> list_all isdigit_char s \<longrightarrow> Phone_init s = Inr \<lparr>field_value = s\<rparr>)
   \<and> (\<not> (length s = 10 \<and> list_all isdigit_char s)
        \<longrightarrow> Phone_init s = Inl (ValueError ''Phone number must be 10 digits long''))
   \<and> (length s = 10 \<and> list_all ascii_digit s \<longrightarrow> Phone_init s = Inr \<lparr>field_value = s\<rparr>)"
proof -
  have "list_all isdigit_char s" if "list_all ascii_digit s"
    using that by (induction s) (auto simp: ascii_digit_isdigit_char)
  then show ?thesis
    by (auto simp: Phone_init_def isdigit_list_all)
qed

theorem Phone_init_iff_witness:
  "Phone_init ''1234567890'' = Inr \<lparr>field_value = ''1234567890''\<rparr>
   \<and> Phone_init ''12345'' = Inl (ValueError ''Phone number must be 10 digits long'')"
  using Phone_init_iff [of "''1234567890''"] Phone_init_iff [of "''12345''"]
  by (simp add: isdigit_char_def)

subsection \<open>Editing a phone\<close>

lemma find_phone_in_None:
  "find_phone_in ps old = None \<longleftrightarrow> (\<forall>p \<in> set ps. field_value p \<noteq> old)"
  by (induction ps) auto

lemma find_phone_in_Some:
  "find_phone_in ps old = Some i \<longleftrightarrow>
     i = length (takeWhile (\<lambda>p. field_value p \<noteq> old) ps) \<and> i < length ps"
  by (induction ps arbitrary: i) auto

lemma list_update_first:
  "\<exists>p \<in> set ps. \<not> P p \<Longrightarrow>
    ps[length (takeWhile P ps) := x] = takeWhile P ps @ x # tl (dropWhile P ps)"
  by (induction ps) auto

lemma Field_update_new: "(p :: 'a Field)\<lparr>field_value := v\<rparr> = \<lparr>field_value = v\<rparr>"
  by (cases p) simp

text \<open>
  Claim C7: when some phone of the record has the value \<open>old\<close>, \<^verbatim>\<open>edit_phone(old, new)\<close>
  gives the first such phone the value \<open>new\<close>, whatever string \<open>new\<close> is, leaves the phones
  before and after it as they were, and returns true; when none has, it returns false and
  the record is unchanged.
\<close>

theorem edit_phone_first_match:
  "((\<exists>p \<in> set (phones r). field_value p = old) \<longrightarrow>
      edit_phone r old new =
        (True, r\<lparr>phones := takeWhile (\<lambda>p. field_value p \<noteq> old) (phones r)
                   @ \<lparr>field_value = new\<rparr>
                   # tl (dropWhile (\<lambda>p. field_value p \<noteq> old) (phones r))\<rparr>))
   \<and> (\<not> (\<exists>p \<in> set (phones r). field_value p = old) \<longrightarrow> edit_phone r old new = (False, r))"
proof (cases "find_phone_in (phones r) old")
  case None
  then have "\<forall>p \<in> set (phones r). field_value p \<noteq> old"
    by (simp add: find_phone_in_None)
  with None show ?thesis
    by (simp add: edit_phone_def find_phone_def)
next
  case (Some i)
  then have i: "i = length (takeWhile (\<lambda>p. field_value p \<noteq> old) (phones r))"
      "i < length (phones r)"
    by (simp_all add: find_phone_in_Some)
  have ex: "\<exists>p \<in> set (phones r). \<not> field_value p \<noteq> old"
    using Some find_phone_in_None [of "phones r" old] by auto
  show ?thesis
    using Some ex i list_update_first [OF ex, of "\<lparr>field_value = new\<rparr>"]
    by (auto simp: edit_phone_def find_phone_def Field_update_new)
qed

theorem edit_phone_first_match_witness:
  "edit_phone \<lparr>name = \<lparr>field_value = ''alice''\<rparr>, birthday = None,
               phones = [\<lparr>field_value = ''1111111111''\<rparr>, \<lparr>field_value = ''2222222222''\<rparr>,
                         \<lparr>field_value = ''2222222222''\<rparr>]\<rparr> ''2222222222'' ''x''
     = (True, \<lparr>name = \<lparr>field_value = ''alice''\<rparr>, birthday = None,
               phones = [\<lparr>field_value = ''1111111111''\<rparr>, \<lparr>field_value = ''x''\<rparr>,
                         \<lparr>field_value = ''2222222222''\<rparr>]\<rparr>)
   \<and> edit_phone \<lparr>name = \<lparr>field_value = ''alice''\<rparr>, birthday = None,
               phones = [\<lparr>field_value = ''1111111111''\<rparr>]\<rparr> ''2222222222'' ''x''
     = (False, \<lparr>name = \<lparr>field_value = ''alice''\<rparr>, birthday = None,
               phones = [\<lparr>field_value = ''1111111111''\<rparr>]\<rparr>)"
  using edit_phone_first_match
          [of "\<lparr>name = \<lparr>field_value = ''alice''\<rparr>, birthday = None,
                phones = [\<lparr>field_value = ''1111111111''\<rparr>, \<lparr>field_value = ''2222222222''\<rparr>,
                          \<lparr>field_value = ''2222222222''\<rparr>]\<rparr>" "''2222222222''" "''x''"]
        edit_phone_first_match
          [of "\<lparr>name = \<lparr>field_value = ''alice''\<rparr>, birthday = None,
                phones = [\<lparr>field_value = ''1111111111''\<rparr>]\<rparr>" "''2222222222''" "''x''"]
  by simp

subsection \<open>The book as a dictionary\<close>

lemma map_of_dict_set: "map_of (dict_set k v d) = (map_of d)(k \<mapsto> v)"
  by (induction d) auto

lemma keys_dict_set:
  "map fst (dict_set k v d) = (if k \<in> set (map fst d) then map fst d else map fst d @ [k])"
  by (induction d) (force split: if_splits)+

lemma distinct_dict_set: "distinct (map fst d) \<Longrightarrow> distinct (map fst (dict_set k v d))"
  by (simp add: keys_dict_set)

lemma find_add_record: "find_record (add_record book r) (field_value (name r)) = Some r"
  by (simp add: find_record_def add_record_def dict_get_def map_of_dict_set)

text \<open>
  Claim C8: for a book (every key once) and two records \<open>r1\<close>, \<open>r2\<close> with the same name,
  after \<^verbatim>\<open>add_record(r1)\<close> and \<^verbatim>\<open>add_record(r2)\<close> the lookup of the name returns \<open>r2\<close>, and
  \<open>r2\<close> is the only record the book holds under that name.
\<close>

theorem add_record_overwrites:
  assumes "field_value (name r1) = nm" and "field_value (name r2) = nm"
    and "distinct (map fst book)"
  shows "find_record (add_record (add_record book r1) r2) nm = Some r2
    \<and> (\<forall>r. (nm, r) \<in> set (add_record (add_record book r1) r2) \<longrightarrow> r = r2)"
proof -
  let ?b = "add_record (add_record book r1) r2"
  have f: "find_record ?b nm = Some r2"
    using assms(2) find_add_record [of "add_record book r1" r2] by simp
  have "distinct (map fst ?b)"
    using assms(3) by (simp add: add_record_def distinct_dict_set)
  then have "map_of ?b nm = Some r" if "(nm, r) \<in> set ?b" for r
    using that by simp
  with f show ?thesis
    by (auto simp: find_record_def dict_get_def)
qed

theorem add_record_overwrites_witness:
  "find_record
     (add_record (add_record [(''bob'', alice0\<lparr>name := \<lparr>field_value = ''bob''\<rparr>\<rparr>)] alice0)
        (alice0\<lparr>phones := []\<rparr>)) ''alice''
   = Some (alice0\<lparr>phones := []\<rparr>)"
proof -
  have n: "field_value (name alice0) = ''alice''"
      "field_value (name (alice0\<lparr>phones := []\<rparr>)) = ''alice''"
    by (simp_all add: alice0_def)
  have d: "distinct (map fst [(''bob'', alice0\<lparr>name := \<lparr>field_value = ''bob''\<rparr>\<rparr>)])"
    by simp
  show ?thesis
    using add_record_overwrites [OF n d] by simp
qed

subsection \<open>The handlers\<close>

lemma inner_ValueError:
  "inner (Inl (ValueError m)) = Inr (Some ''Give the correct data, please'')"
  by (simp add: inner_def truthy_def VErrorBirthday_def)

lemma inner_Inr: "inner (Inr s) = Inr (Some s)"
  by (simp add: inner_def)

lemma add_contact_valid:
  assumes "length phone = 10" and "list_all isdigit_char phone"
  shows "add_contact [nm, phone] book =
    (Inr (Some ''Contact added.''),
     dict_set nm \<lparr>name = \<lparr>field_value = nm\<rparr>, birthday = None,
                  phones = [\<lparr>field_value = phone\<rparr>]\<rparr> book)"
  using assms
  by (simp add: add_contact_def add_contact_func_def input_error_def inner_Inr Record_init_def
      Name_init_def add_phone_def Phone_init_def isdigit_list_all add_record_def)

text \<open>
  Claim C10: when the book holds a record under a name, whatever its phones and birthday,
  the command \<^verbatim>\<open>add\<close> with that name and a phone that \<^verbatim>\<open>Phone\<close> accepts returns
  \<^verbatim>\<open>"Contact added."\<close>; afterwards the record under the name has that one phone and no
  birthday, and the book has the same keys in the same order.
\<close>

theorem add_contact_replaces_record:
  assumes "find_record book nm = Some r"
    and "length phone = 10" and "list_all isdigit_char phone"
  shows "fst (add_contact [nm, phone] book) = Inr (Some ''Contact added.'')
    \<and> find_record (snd (add_contact [nm, phone] book)) nm
        = Some \<lparr>name = \<lparr>field_value = nm\<rparr>, birthday = None,
                 phones = [\<lparr>field_value = phone\<rparr>]\<rparr>
    \<and> map fst (snd (add_contact [nm, phone] book)) = map fst book"
proof -
  have "nm \<in> set (map fst book)"
    using assms(1)
    by (auto simp: find_record_def dict_get_def dest: map_of_SomeD intro: rev_image_eqI)
  then show ?thesis
    using add_contact_valid [OF assms(2,3), of nm book]
    by (simp add: find_record_def dict_get_def map_of_dict_set keys_dict_set)
qed

theorem add_contact_replaces_record_witness:
  "fst (add_contact [''alice'', ''0987654321'']
          [(''alice'', alice0\<lparr>phones := phones alice0 @ phones alice0\<rparr>)])
     = Inr (Some ''Contact added.'')
   \<and> find_record (snd (add_contact [''alice'', ''0987654321'']
          [(''alice'', alice0\<lparr>phones := phones alice0 @ phones alice0\<rparr>)])) ''alice''
     = Some \<lparr>name = \<lparr>field_value = ''alice''\<rparr>, birthday = None,
              phones = [\<lparr>field_value = ''0987654321''\<rparr>]\<rparr>"
proof -
  have f: "find_record [(''alice'', alice0\<lparr>phones := phones alice0 @ phones alice0\<rparr>)] ''alice''
             = Some (alice0\<lparr>phones := phones alice0 @ phones alice0\<rparr>)"
    by (simp add: find_record_def dict_get_def)
  have l: "length ''0987654321'' = 10"
    by simp
  have d: "list_all isdigit_char ''0987654321''"
    by (simp add: isdigit_char_def)
  show ?thesis
    using add_contact_replaces_record [OF f l d] by simp
qed

text \<open>
  Unpacking an argument list of the wrong length raises \<^verbatim>\<open>ValueError\<close>, not
  \<^verbatim>\<open>IndexError\<close>; whatever the book, each of the five handlers that take arguments then
  returns the message of the \<^verbatim>\<open>ValueError\<close> clause.
\<close>

lemma wrong_length_two:
  assumes "length args \<noteq> 2"
  shows "add_contact args book = (Inr (Some ''Give the correct data, please''), book)"
    and "change_contact args book = (Inr (Some ''Give the correct data, please''), book)"
    and "add_birthday_cmd args book = (Inr (Some ''Give the correct data, please''), book)"
  using assms
  by (auto simp: add_contact_def add_contact_func_def change_contact_def change_contact_func_def
      add_birthday_cmd_def add_birthday_func_def input_error_def unpack_error_def inner_ValueError
      split: list.splits)

lemma wrong_length_one:
  assumes "length args \<noteq> 1"
  shows "show_phone args book = (Inr (Some ''Give the correct data, please''), book)"
    and "show_birthday args book = (Inr (Some ''Give the correct data, please''), book)"
  using assms
  by (auto simp: show_phone_def show_phone_func_def show_birthday_def show_birthday_func_def
      input_error_def unpack_error_def inner_ValueError split: list.splits)

text \<open>
  Claim C5 says that a handler called with the wrong number of arguments returns
  \<^verbatim>\<open>"No arguments."\<close>.  Called with no argument or with one argument too few, each of
  the five handlers returns \<^verbatim>\<open>"Give the correct data, please"\<close> instead.
\<close>

theorem wrong_argument_count_message:
  "fst (add_contact [] []) = Inr (Some ''Give the correct data, please'')
   \<and> fst (add_contact [''alice''] []) = Inr (Some ''Give the correct data, please'')
   \<and> fst (change_contact [''alice''] []) = Inr (Some ''Give the correct data, please'')
   \<and> fst (show_phone [] []) = Inr (Some ''Give the correct data, please'')
   \<and> fst (add_birthday_cmd [''alice''] []) = Inr (Some ''Give the correct data, please'')
   \<and> fst (show_birthday [] []) = Inr (Some ''Give the correct data, please'')"
  by (simp add: add_contact_def add_contact_func_def change_contact_def change_contact_func_def
      show_phone_def show_phone_func_def add_birthday_cmd_def add_birthday_func_def
      show_birthday_def show_birthday_func_def input_error_def unpack_error_def inner_ValueError)

text \<open>
  The constructors raise \<^verbatim>\<open>ValueError\<close> only, so every handler but the one of
  \<^verbatim>\<open>birthdays\<close> returns a string, whatever its arguments and the book.
\<close>

lemma inner_IndexError: "inner (Inl IndexError) = Inr (Some ''No arguments.'')"
  by (simp add: inner_def)

lemma Phone_init_raises: "Phone_init s = Inl e \<Longrightarrow> \<exists>m. e = ValueError m"
  by (auto simp: Phone_init_def split: if_splits)

lemma strptime_raises: "strptime s = Inl e \<Longrightarrow> \<exists>m. e = ValueError m"
  by (auto simp: strptime_def datetime_init_def check_date_fields_def
      split: option.splits prod.splits if_splits)

lemma Birthday_init_raises: "Birthday_init s = Inl e \<Longrightarrow> \<exists>m. e = ValueError m"
  by (auto simp: Birthday_init_def split: sum.splits exn.splits dest: strptime_raises)

lemma add_contact_returns: "\<exists>msg. fst (add_contact args book) = Inr (Some msg)"
  by (auto simp: add_contact_def add_contact_func_def input_error_def unpack_error_def
      inner_ValueError inner_Inr Record_init_def add_phone_def
      split: list.splits sum.splits dest!: Phone_init_raises)

lemma change_contact_returns: "\<exists>msg. fst (change_contact args book) = Inr (Some msg)"
  by (auto simp: change_contact_def change_contact_func_def input_error_def unpack_error_def
      inner_ValueError inner_Inr inner_IndexError
      split: list.splits option.splits prod.splits)

lemma show_phone_returns: "\<exists>msg. fst (show_phone args book) = Inr (Some msg)"
  by (auto simp: show_phone_def show_phone_func_def input_error_def unpack_error_def
      inner_ValueError inner_Inr split: list.splits option.splits)

lemma show_all_returns: "\<exists>msg. fst (show_all book) = Inr (Some msg)"
  by (auto simp: show_all_def show_all_func_def input_error_def inner_Inr)

lemma add_birthday_cmd_returns: "\<exists>msg. fst (add_birthday_cmd args book) = Inr (Some msg)"
  by (auto simp: add_birthday_cmd_def add_birthday_func_def input_error_def unpack_error_def
      inner_ValueError inner_Inr add_birthday_def
      split: list.splits option.splits sum.splits dest!: Birthday_init_raises)

lemma show_birthday_returns: "\<exists>msg. fst (show_birthday args book) = Inr (Some msg)"
  by (auto simp: show_birthday_def show_birthday_func_def input_error_def unpack_error_def
      inner_ValueError inner_Inr split: list.splits option.splits)

lemma other_handlers_return:
  "h \<noteq> Birthdays \<Longrightarrow> \<exists>msg. fst (call_handler h today args book) = Inr (Some msg)"
  by (cases h)
    (simp_all add: add_contact_returns change_contact_returns show_phone_returns
      show_all_returns add_birthday_cmd_returns show_birthday_returns)

text \<open>
  Claim C2 says that no exception leaves a handler, also not the handler of \<^verbatim>\<open>birthdays\<close>
  when a stored record has no birthday.  On the book that \<^verbatim>\<open>add alice 1234567890\<close> builds,
  that handler reads \<^verbatim>\<open>record.birthday.value\<close> of a record without birthday; the
  \<^verbatim>\<open>AttributeError\<close> is none of the classes \<^verbatim>\<open>input_error\<close> catches and leaves the handler.
\<close>

theorem birthdays_handler_escapes:
  "snd (add_contact [''alice'', ''1234567890''] []) = [(''alice'', alice0)]
   \<and> show_birthdays_next_week monday_2024_06_03 [(''alice'', alice0)]
     = (Inl (AttributeError ''NoneType object has no attribute value''), [(''alice'', alice0)])"
  by code_simp

subsection \<open>A failed call leaves the book as it was\<close>

lemma show_phone_book: "snd (show_phone args book) = book"
  by (simp add: show_phone_def show_phone_func_def input_error_def
      split: list.splits option.splits)

lemma show_all_book: "snd (show_all book) = book"
  by (simp add: show_all_def show_all_func_def input_error_def)

lemma show_birthday_book: "snd (show_birthday args book) = book"
  by (simp add: show_birthday_def show_birthday_func_def input_error_def
      split: list.splits option.splits)

lemma show_birthdays_next_week_book: "snd (show_birthdays_next_week today book) = book"
  by (simp add: show_birthdays_next_week_def show_birthdays_next_week_func_def input_error_def
      split: sum.splits)

lemma add_contact_book:
  "snd (add_contact args book) = book
   \<or> fst (add_contact args book) = Inr (Some ''Contact added.'')"
  by (simp add: add_contact_def add_contact_func_def input_error_def inner_Inr
      split: list.splits sum.splits)

lemma change_contact_book:
  "snd (change_contact args book) = book
   \<or> fst (change_contact args book) = Inr (Some ''Contact updated.'')"
  by (simp add: change_contact_def change_contact_func_def input_error_def inner_Inr
      split: list.splits sum.splits option.splits prod.splits)

lemma add_birthday_cmd_book:
  "snd (add_birthday_cmd args book) = book
   \<or> fst (add_birthday_cmd args book) = Inr (Some ''Birthday added.'')"
  by (simp add: add_birthday_cmd_def add_birthday_func_def input_error_def inner_Inr
      split: list.splits sum.splits option.splits)

lemma not_failed_success:
  "\<not> failed (Inr (Some ''Contact added.''))"
  "\<not> failed (Inr (Some ''Contact updated.''))"
  "\<not> failed (Inr (Some ''Birthday added.''))"
  by (simp_all add: failed_def failure_messages_def)

text \<open>
  Claim C9: when a call of a handler fails, that is, it returns one of the three error
  messages (or the failure output of the handler, or nothing, or an exception leaves it),
  the book after the call, with every record in it, is the book before the call.
\<close>

theorem failed_handler_keeps_book:
  assumes "failed (fst (call_handler h today args book))"
  shows "snd (call_handler h today args book) = book"
proof (cases h)
  case Add
  then show ?thesis
    using assms add_contact_book [of args book] by (auto simp: not_failed_success)
next
  case Change
  then show ?thesis
    using assms change_contact_book [of args book] by (auto simp: not_failed_success)
next
  case AddBirthday
  then show ?thesis
    using assms add_birthday_cmd_book [of args book] by (auto simp: not_failed_success)
qed (simp_all add: show_phone_book show_all_book show_birthday_book
       show_birthdays_next_week_book)

theorem failed_handler_keeps_book_witness:
  "fst (call_handler AddBirthday monday_2024_06_03 [''alice'', ''1990-06-05'']
          [(''alice'', alice0)]) = Inr (Some ''Give the correct data, please'')
   \<and> snd (call_handler AddBirthday monday_2024_06_03 [''alice'', ''1990-06-05'']
          [(''alice'', alice0)]) = [(''alice'', alice0)]"
proof -
  have r: "fst (call_handler AddBirthday monday_2024_06_03 [''alice'', ''1990-06-05'']
            [(''alice'', alice0)]) = Inr (Some ''Give the correct data, please'')"
    by code_simp
  then have "failed (fst (call_handler AddBirthday monday_2024_06_03 [''alice'', ''1990-06-05'']
            [(''alice'', alice0)]))"
    by (simp add: failed_def failure_messages_def)
  from failed_handler_keeps_book [OF this] r show ?thesis
    by simp
qed

subsection \<open>The birthdays of the week\<close>

lemma set_dict_set_distinct:
  "distinct (map fst d) \<Longrightarrow> set (dict_set k v d) = insert (k, v) {p \<in> set d. fst p \<noteq> k}"
  by (induction d) (auto split: if_splits simp: rev_image_eqI)

lemma listed_dict_append:
  assumes "distinct (map fst d)"
  shows "listed (dict_append d k x) k' x' \<longleftrightarrow> listed d k' x' \<or> (k' = k \<and> x' = x)"
proof -
  define old where "old = (case dict_get d k of None \<Rightarrow> [] | Some xs \<Rightarrow> xs)"
  have new: "set (dict_append d k x) = insert (k, old @ [x]) {p \<in> set d. fst p \<noteq> k}"
    by (simp add: dict_append_def old_def set_dict_set_distinct [OF assms])
  have old: "listed d k x' \<longleftrightarrow> x' \<in> set old"
  proof (cases "map_of d k")
    case None
    then have "\<And>v. (k, v) \<notin> set d"
      by (metis map_of_eq_None_iff fst_conv image_eqI)
    with None show ?thesis
      by (simp add: listed_def old_def dict_get_def)
  next
    case (Some xs)
    then have "\<And>v. (k, v) \<in> set d \<longleftrightarrow> v = xs"
      using assms by (metis map_of_is_SomeI map_of_SomeD option.inject)
    with Some show ?thesis
      by (simp add: listed_def old_def dict_get_def)
  qed
  show ?thesis
  proof (cases "k' = k")
    case True
    have "listed (dict_append d k x) k x' \<longleftrightarrow> x' \<in> set (old @ [x])"
      unfolding listed_def new by auto
    with True old show ?thesis
      by auto
  next
    case False
    then show ?thesis
      unfolding listed_def new by auto
  qed
qed

lemma distinct_dict_append: "distinct (map fst d) \<Longrightarrow> distinct (map fst (dict_append d k x))"
  by (simp add: dict_append_def distinct_dict_set)

lemma weekday_range: "0 \<le> weekday d \<and> weekday d < 7"
  by (simp add: weekday_def)

lemma day_name_cases:
  assumes "0 \<le> w" and "w < 7"
  shows "(DAY_NAMES ! nat w = ''Saturday'') = (w = 5)"
    and "(DAY_NAMES ! nat w = ''Sunday'') = (w = 6)"
proof -
  from assms have "w = 0 \<or> w = 1 \<or> w = 2 \<or> w = 3 \<or> w = 4 \<or> w = 5 \<or> w = 6"
    by arith
  then show "(DAY_NAMES ! nat w = ''Saturday'') = (w = 5)"
    and "(DAY_NAMES ! nat w = ''Sunday'') = (w = 6)"
    by (auto simp: DAY_NAMES_def)
qed

lemma rebucket:
  "(if strftime_A d = ''Saturday'' \<or> strftime_A d = ''Sunday'' then ''Monday'' else strftime_A d)
     = bucket_name d"
  using day_name_cases [of "weekday d"] weekday_range [of d]
  by (simp add: strftime_A_def bucket_name_def)

lemma birthdays_loop_step:
  assumes "birthday_this_year today r = Some bty"
  shows "birthdays_loop today e ((nm, r) # items) acc =
    birthdays_loop today e items
      (if toordinal bty - e \<le> 5 \<and> toordinal bty - e > -2
       then dict_append acc (bucket_name bty) nm else acc)"
  using assms
  by (auto simp: birthday_this_year_def Let_def rebucket split: option.splits sum.splits)

lemma birthdays_loop_listed:
  assumes "\<forall>(nm, r) \<in> set items. birthday_this_year today r \<noteq> None"
    and "distinct (map fst acc)"
  shows "\<exists>res. birthdays_loop today e items acc = Inr res \<and> distinct (map fst res) \<and>
     (\<forall>k nm. listed res k nm \<longleftrightarrow>
        listed acc k nm \<or>
        (\<exists>r bty. (nm, r) \<in> set items \<and> birthday_this_year today r = Some bty
           \<and> -2 < toordinal bty - e \<and> toordinal bty - e \<le> 5 \<and> k = bucket_name bty))"
  using assms
proof (induction items arbitrary: acc)
  case Nil
  then show ?case by simp
next
  case (Cons item items)
  obtain nm0 r0 where item: "item = (nm0, r0)"
    by (cases item)
  with Cons.prems obtain bty0 where bty0: "birthday_this_year today r0 = Some bty0"
    by auto
  let ?acc = "if toordinal bty0 - e \<le> 5 \<and> toordinal bty0 - e > -2
       then dict_append acc (bucket_name bty0) nm0 else acc"
  have d: "distinct (map fst ?acc)"
    using Cons.prems(2) by (simp add: distinct_dict_append)
  have l: "listed ?acc k nm \<longleftrightarrow>
      listed acc k nm \<or> (nm = nm0 \<and> -2 < toordinal bty0 - e \<and> toordinal bty0 - e \<le> 5
         \<and> k = bucket_name bty0)" for k nm
    using Cons.prems(2) by (auto simp: listed_dict_append)
  from Cons.prems(1) have "\<forall>(nm, r) \<in> set items. birthday_this_year today r \<noteq> None"
    by simp
  from Cons.IH [OF this d] obtain res where res:
    "birthdays_loop today e items ?acc = Inr res" "distinct (map fst res)"
    "\<And>k nm. listed res k nm \<longleftrightarrow>
        listed ?acc k nm \<or>
        (\<exists>r bty. (nm, r) \<in> set items \<and> birthday_this_year today r = Some bty
           \<and> -2 < toordinal bty - e \<and> toordinal bty - e \<le> 5 \<and> k = bucket_name bty)"
    by blast
  have "birthdays_loop today e (item # items) acc = Inr res"
    using res(1) by (simp only: item birthdays_loop_step [OF bty0])
  moreover have "listed res k nm \<longleftrightarrow>
        listed acc k nm \<or>
        (\<exists>r bty. (nm, r) \<in> set (item # items) \<and> birthday_this_year today r = Some bty
           \<and> -2 < toordinal bty - e \<and> toordinal bty - e \<le> 5 \<and> k = bucket_name bty)" for k nm
    unfolding res(3) l item using bty0 by auto
  ultimately show ?case
    using res(2) by blast
qed

lemma days_before_month_nonneg: "1 \<le> m \<Longrightarrow> m \<le> 12 \<Longrightarrow> 0 \<le> days_before_month y m"
proof -
  assume "1 \<le> m" "m \<le> 12"
  then have "m = 1 \<or> m = 2 \<or> m = 3 \<or> m = 4 \<or> m = 5 \<or> m = 6 \<or> m = 7 \<or> m = 8
      \<or> m = 9 \<or> m = 10 \<or> m = 11 \<or> m = 12"
    by arith
  then show ?thesis
    by (auto simp: days_before_month_def DAYS_BEFORE_MONTH_def)
qed

lemma days_before_year_nonneg: "1 \<le> y \<Longrightarrow> 0 \<le> days_before_year y"
  by (simp add: days_before_year_def Let_def)

lemma toordinal_pos:
  assumes "check_date_fields (year d) (month d) (day d) = Inr ()"
  shows "1 \<le> toordinal d"
proof -
  from assms have "1 \<le> year d" "1 \<le> month d" "month d \<le> 12" "1 \<le> day d"
    by (auto simp: check_date_fields_def MINYEAR_def split: if_splits)
  then show ?thesis
    using days_before_month_nonneg [of "month d" "year d"] days_before_year_nonneg [of "year d"]
    by (simp add: toordinal_def ymd2ord_def)
qed

lemma get_birthdays_per_week_loop:
  assumes "check_date_fields (year today) (month today) (day today) = Inr ()"
    and "week_end today \<le> MAXORDINAL"
  shows "get_birthdays_per_week today book = birthdays_loop today (week_end today) book []"
proof -
  have "1 \<le> toordinal today"
    by (rule toordinal_pos [OF assms(1)])
  moreover have "0 \<le> weekday today" "weekday today < 7"
    using weekday_range by auto
  moreover have "weekday today = (toordinal today + 6) mod 7"
    by (simp add: weekday_def)
  ultimately have "0 < toordinal today - weekday today"
    by arith
  then show ?thesis
    using assms(2)
    by (simp add: get_birthdays_per_week_def ordinal_add_days_def week_end_def Let_def)
qed

lemma week_end_sunday:
  "(week_end today + 6) mod 7 = 6 \<and> week_end today - 6 \<le> toordinal today
   \<and> toordinal today \<le> week_end today"
proof -
  have "weekday today = (toordinal today + 6) mod 7"
    by (simp add: weekday_def)
  then show ?thesis
    unfolding week_end_def by presburger
qed

text \<open>
  Claim C1, as the specification has it, holds of every book and every current date.  In
  2023, which is no leap year, a birthday on 29 February cannot be moved to the current
  year: \<^verbatim>\<open>replace\<close> raises \<^verbatim>\<open>ValueError\<close> and the query has no result, although the
  birthday of another contact of the book lies in the window.
\<close>

theorem birthdays_per_week_leap_day_counterexample:
  "get_birthdays_per_week monday_2023_06_05 leap_book
     = Inl (ValueError ''day is out of range for month'')
   \<and> birthday_this_year monday_2023_06_05 (with_birthday ''alice'' 1990 6 10)
     = Some \<lparr>year = 2023, month = 6, day = 10\<rparr>
   \<and> -2 < toordinal \<lparr>year = 2023, month = 6, day = 10\<rparr> - week_end monday_2023_06_05
   \<and> toordinal \<lparr>year = 2023, month = 6, day = 10\<rparr> - week_end monday_2023_06_05 \<le> 5"
  by code_simp

text \<open>
  Claim C1, amended: let today be a date whose week ends on or before the last day the
  calendar has, and let every record of the book (every key once) have a birthday that
  exists in the current year.  Then the query returns a result, and for every contact
  of the book the result has the contact's name under the weekday \<open>k\<close> exactly when the
  difference \<open>delta_days\<close> between the birthday in the current year and the end of the
  week satisfies \<open>-2 < delta_days \<le> 5\<close> and \<open>k\<close> is Monday for a birthday on Saturday or
  Sunday and the name of the birthday's weekday otherwise.  The end of the week is the
  Sunday of the week that starts on the last Monday on or before today.
\<close>

theorem birthdays_per_week_window:
  assumes "check_date_fields (year today) (month today) (day today) = Inr ()"
    and "week_end today \<le> MAXORDINAL"
    and "distinct (map fst book)"
    and "\<forall>(nm, r) \<in> set book. birthday_this_year today r \<noteq> None"
  shows "\<exists>res. get_birthdays_per_week today book = Inr res \<and>
     (\<forall>(nm, r) \<in> set book. \<forall>bty k. birthday_this_year today r = Some bty \<longrightarrow>
        (listed res k nm \<longleftrightarrow>
           -2 < toordinal bty - week_end today \<and> toordinal bty - week_end today \<le> 5
           \<and> k = bucket_name bty))
     \<and> (week_end today + 6) mod 7 = 6 \<and> week_end today - 6 \<le> toordinal today
     \<and> toordinal today \<le> week_end today"
proof -
  from birthdays_loop_listed [OF assms(4), of "[]" "week_end today"]
  obtain res where res: "birthdays_loop today (week_end today) book [] = Inr res"
    "\<And>k nm. listed res k nm \<longleftrightarrow>
        (\<exists>r bty. (nm, r) \<in> set book \<and> birthday_this_year today r = Some bty
           \<and> -2 < toordinal bty - week_end today \<and> toordinal bty - week_end today \<le> 5
           \<and> k = bucket_name bty)"
    by (auto simp: listed_def)
  have uniq: "r' = r" if "(nm, r) \<in> set book" "(nm, r') \<in> set book" for nm r r'
    using that assms(3) by (meson eq_key_imp_eq_value)
  have "listed res k nm \<longleftrightarrow>
           -2 < toordinal bty - week_end today \<and> toordinal bty - week_end today \<le> 5
           \<and> k = bucket_name bty"
    (is "?L \<longleftrightarrow> ?R")
    if in_book: "(nm, r) \<in> set book" and bty: "birthday_this_year today r = Some bty"
    for nm r bty k
  proof
    assume ?L
    then obtain r' bty' where r': "(nm, r') \<in> set book"
      "birthday_this_year today r' = Some bty'"
      "-2 < toordinal bty' - week_end today" "toordinal bty' - week_end today \<le> 5"
      "k = bucket_name bty'"
      unfolding res(2) by blast
    have "r' = r"
      by (rule uniq [OF in_book r'(1)])
    with r' bty show ?R
      by simp
  next
    assume ?R
    with in_book bty show ?L
      unfolding res(2) by blast
  qed
  then have per: "\<forall>(nm, r) \<in> set book. \<forall>bty k. birthday_this_year today r = Some bty \<longrightarrow>
        (listed res k nm \<longleftrightarrow>
           -2 < toordinal bty - week_end today \<and> toordinal bty - week_end today \<le> 5
           \<and> k = bucket_name bty)"
    by blast
  have g: "get_birthdays_per_week today book = Inr res"
    using res(1) by (simp only: get_birthdays_per_week_loop [OF assms(1,2)])
  show ?thesis
    using g per week_end_sunday [of today] by blast
qed

theorem birthdays_per_week_window_witness:
  "\<exists>res. get_birthdays_per_week monday_2024_06_03 week_book = Inr res
     \<and> listed res ''Monday'' ''bob'' \<and> listed res ''Monday'' ''carl''
     \<and> \<not> listed res ''Wednesday'' ''alice''"
proof -
  have h1: "check_date_fields (year monday_2024_06_03) (month monday_2024_06_03)
              (day monday_2024_06_03) = Inr ()"
    by code_simp
  have h2: "week_end monday_2024_06_03 \<le> MAXORDINAL"
    by code_simp
  have h3: "distinct (map fst week_book)"
    by (simp add: week_book_def)
  have h4: "\<forall>(nm, r) \<in> set week_book. birthday_this_year monday_2024_06_03 r \<noteq> None"
    by code_simp
  from birthdays_per_week_window [OF h1 h2 h3 h4] obtain res where
    g: "get_birthdays_per_week monday_2024_06_03 week_book = Inr res" and
    per: "\<forall>(nm, r) \<in> set week_book. \<forall>bty k.
        birthday_this_year monday_2024_06_03 r = Some bty \<longrightarrow>
        (listed res k nm \<longleftrightarrow>
           -2 < toordinal bty - week_end monday_2024_06_03
           \<and> toordinal bty - week_end monday_2024_06_03 \<le> 5
           \<and> k = bucket_name bty)"
    by blast
  have a: "birthday_this_year monday_2024_06_03 (with_birthday ''alice'' 1990 6 5)
             = Some \<lparr>year = 2024, month = 6, day = 5\<rparr>"
      "toordinal \<lparr>year = 2024, month = 6, day = 5\<rparr> - week_end monday_2024_06_03 = -4"
    by code_simp+
  have b: "birthday_this_year monday_2024_06_03 (with_birthday ''bob'' 1995 6 8)
             = Some \<lparr>year = 2024, month = 6, day = 8\<rparr>"
      "toordinal \<lparr>year = 2024, month = 6, day = 8\<rparr> - week_end monday_2024_06_03 = -1"
      "bucket_name \<lparr>year = 2024, month = 6, day = 8\<rparr> = ''Monday''"
    by code_simp+
  have c: "birthday_this_year monday_2024_06_03 (with_birthday ''carl'' 1999 6 10)
             = Some \<lparr>year = 2024, month = 6, day = 10\<rparr>"
      "toordinal \<lparr>year = 2024, month = 6, day = 10\<rparr> - week_end monday_2024_06_03 = 1"
      "bucket_name \<lparr>year = 2024, month = 6, day = 10\<rparr> = ''Monday''"
    by code_simp+
  from per a have "\<not> listed res ''Wednesday'' ''alice''"
    by (simp add: week_book_def)
  moreover from per b have "listed res ''Monday'' ''bob''"
    by (simp add: week_book_def)
  moreover from per c have "listed res ''Monday'' ''carl''"
    by (simp add: week_book_def)
  ultimately show ?thesis
    using g by blast
qed


subsection \<open>Showing a birthday\<close>

lemma decimal_length: "0 < k \<Longrightarrow> n < 10 ^ k \<Longrightarrow> length (decimal n) \<le> k"
proof (induction n arbitrary: k rule: decimal.induct)
  case (1 n)
  show ?case
  proof (cases "n < 10")
    case True
    with "1.prems" show ?thesis by simp
  next
    case False
    with "1.prems" have k: "1 < k"
      by (cases "k = 1") auto
    then obtain j where j: "k = Suc j" "0 < j"
      by (cases k) auto
    with "1.prems" have "n div 10 < 10 ^ j"
      by (simp add: less_mult_imp_div_less mult.commute)
    from "1.IH" [OF False j(2) this] False j show ?thesis
      by simp
  qed
qed

lemma zero_pad_length:
  assumes "0 \<le> n" and "n < 10 ^ w" and "0 < w"
  shows "length (zero_pad w n) = w"
proof -
  have "nat n < 10 ^ w"
    using assms(1,2) by (simp add: nat_less_iff)
  from decimal_length [OF assms(3) this] show ?thesis
    by (simp add: zero_pad_def Let_def del: decimal.simps)
qed

lemma days_in_month_le_31: "1 \<le> m \<Longrightarrow> m \<le> 12 \<Longrightarrow> days_in_month y m \<le> 31"
proof -
  assume "1 \<le> m" "m \<le> 12"
  then have "m = 1 \<or> m = 2 \<or> m = 3 \<or> m = 4 \<or> m = 5 \<or> m = 6 \<or> m = 7 \<or> m = 8
      \<or> m = 9 \<or> m = 10 \<or> m = 11 \<or> m = 12"
    by arith
  then show ?thesis
    by (auto simp: days_in_month_def DAYS_IN_MONTH_def)
qed

lemma check_date_fields_bounds:
  assumes "check_date_fields y m d = Inr ()"
  shows "1 \<le> y \<and> y \<le> 9999 \<and> 1 \<le> m \<and> m \<le> 12 \<and> 1 \<le> d \<and> d \<le> 31"
proof -
  from assms have *: "1 \<le> y" "y \<le> 9999" "1 \<le> m" "m \<le> 12" "1 \<le> d" "d \<le> days_in_month y m"
    by (auto simp: check_date_fields_def MINYEAR_def MAXYEAR_def split: if_splits)
  with days_in_month_le_31 [of m y] show ?thesis
    by simp
qed

lemma strptime_Inr:
  assumes "strptime s = Inr dt"
  shows "check_date_fields (year dt) (month dt) (day dt) = Inr ()
    \<and> hour dt = 0 \<and> minute dt = 0 \<and> second dt = 0 \<and> microsecond dt = 0"
  using assms
  by (auto simp: strptime_def datetime_init_def split: option.splits if_splits sum.splits prod.splits)

lemma Birthday_init_Inr:
  assumes "Birthday_init s = Inr b"
  shows "strptime s = Inr (field_value b)"
  using assms
  by (auto simp: Birthday_init_def split: sum.splits exn.splits)

lemma format_time_midnight: "format_time 0 0 0 0 = ''00:00:00''"
  by code_simp

lemma ascii_digit_char_of: "(n :: nat) < 10 \<Longrightarrow> ascii_digit (char_of (48 + n))"
  by (simp add: ascii_digit_def)

lemma decimal_digits: "list_all ascii_digit (decimal n)"
proof (induction n rule: decimal.induct)
  case (1 n)
  show ?case
  proof (cases "n < 10")
    case True
    then show ?thesis by (simp add: ascii_digit_char_of)
  next
    case False
    have "n mod 10 < 10" by simp
    from "1.IH" [OF False] False ascii_digit_char_of [OF this] show ?thesis
      by simp
  qed
qed

lemma zero_pad_digits: "list_all ascii_digit (zero_pad w n)"
  using decimal_digits [of "nat n"]
  by (auto simp: zero_pad_def Let_def ascii_digit_def list_all_iff simp del: decimal.simps)


text \<open>
  Claim C6, as the specification has it: the handler of \<^verbatim>\<open>show-birthday\<close> returns the
  birthday written as DD.MM.YYYY.  The handler returns \<^verbatim>\<open>str\<close> of the stored
  \<^verbatim>\<open>datetime\<close>: after \<^verbatim>\<open>add-birthday alice 05.06.1990\<close> it returns
  \<^verbatim>\<open>1990-06-05 00:00:00\<close>, not \<^verbatim>\<open>05.06.1990\<close>.
\<close>

theorem show_birthday_format_counterexample:
  "fst (show_birthday [''alice'']
          (snd (add_birthday_cmd [''alice'', ''05.06.1990''] [(''alice'', alice0)])))
     = Inr (Some ''1990-06-05 00:00:00'')
   \<and> dd_mm_yyyy \<lparr>year = 1990, month = 6, day = 5,
                  hour = 0, minute = 0, second = 0, microsecond = 0\<rparr> = ''05.06.1990''
   \<and> find_record (snd (add_birthday_cmd [''alice'', ''05.06.1990''] [(''alice'', alice0)])) ''alice''
     = Some (with_birthday ''alice'' 1990 6 5)"
  by code_simp

text \<open>
  Claim C6, amended: for every contact of the book with a birthday (a value that
  \<^verbatim>\<open>Birthday\<close> built from some string), the handler of \<^verbatim>\<open>show-birthday\<close> returns the
  birthday written as \<^verbatim>\<open>YYYY-MM-DD 00:00:00\<close>: the year in four digits, the month and the
  day in two digits each, separated by hyphens, then a space and the time of midnight.
\<close>

theorem show_birthday_iso_format:
  assumes "find_record book nm = Some r" and "birthday r = Some b"
    and "Birthday_init s = Inr b"
  shows "fst (show_birthday [nm] book)
      = Inr (Some (zero_pad 4 (year (field_value b)) @ ''-''
                   @ zero_pad 2 (month (field_value b)) @ ''-''
                   @ zero_pad 2 (day (field_value b)) @ '' 00:00:00''))
    \<and> length (zero_pad 4 (year (field_value b))) = 4
    \<and> length (zero_pad 2 (month (field_value b))) = 2
    \<and> length (zero_pad 2 (day (field_value b))) = 2
    \<and> list_all ascii_digit (zero_pad 4 (year (field_value b)))
    \<and> list_all ascii_digit (zero_pad 2 (month (field_value b)))
    \<and> list_all ascii_digit (zero_pad 2 (day (field_value b)))"
proof -
  let ?dt = "field_value b"
  from strptime_Inr [OF Birthday_init_Inr [OF assms(3)]]
  have c: "check_date_fields (year ?dt) (month ?dt) (day ?dt) = Inr ()"
    and t: "hour ?dt = 0" "minute ?dt = 0" "second ?dt = 0" "microsecond ?dt = 0"
    by simp_all
  from check_date_fields_bounds [OF c]
  have bnd: "0 \<le> year ?dt" "year ?dt < 10 ^ 4" "0 \<le> month ?dt" "month ?dt < 10 ^ 2"
    "0 \<le> day ?dt" "day ?dt < 10 ^ 2"
    by simp_all
  have "fst (show_birthday [nm] book) = Inr (Some (datetime_str ?dt))"
    using assms(1,2)
    by (simp add: show_birthday_def show_birthday_func_def input_error_def inner_Inr Field_str_def)
  moreover have "datetime_str ?dt = zero_pad 4 (year ?dt) @ ''-'' @ zero_pad 2 (month ?dt) @ ''-''
                   @ zero_pad 2 (day ?dt) @ '' 00:00:00''"
    by (simp add: datetime_str_def t format_time_midnight)
  ultimately show ?thesis
    using zero_pad_length [OF bnd(1,2)] zero_pad_length [OF bnd(3,4)] zero_pad_length [OF bnd(5,6)]
    by (simp add: zero_pad_digits)
qed

theorem show_birthday_iso_format_witness:
  "fst (show_birthday [''alice''] [(''alice'', with_birthday ''alice'' 1990 6 5)])
     = Inr (Some ''1990-06-05 00:00:00'')"
proof -
  have f: "find_record [(''alice'', with_birthday ''alice'' 1990 6 5)] ''alice''
             = Some (with_birthday ''alice'' 1990 6 5)"
    by (simp add: find_record_def dict_get_def)
  have b: "birthday (with_birthday ''alice'' 1990 6 5)
             = Some \<lparr>field_value = \<lparr>year = 1990, month = 6, day = 5,
                                      hour = 0, minute = 0, second = 0, microsecond = 0\<rparr>\<rparr>"
    by (simp add: with_birthday_def)
  have i: "Birthday_init (codes ''05.06.1990'')
             = Inr \<lparr>field_value = \<lparr>year = 1990, month = 6, day = 5,
                                     hour = 0, minute = 0, second = 0, microsecond = 0\<rparr>\<rparr>"
    by code_simp
  have z: "zero_pad 4 1990 = ''1990''" "zero_pad 2 6 = ''06''" "zero_pad 2 5 = ''05''"
    by code_simp+
  from show_birthday_iso_format [OF f b i] show ?thesis
    by (simp add: z)
qed


subsection \<open>Parsing a birthday\<close>

lemma matches_iff:
  "(g, rest) \<in> set (matches r s) \<longleftrightarrow> (\<exists>t. s = t @ rest \<and> derives r t g)"
proof (induction r arbitrary: s g rest)
  case (Class p)
  show ?case
    by (cases s) auto
next
  case (Seq a b)
  show ?case
  proof
    assume "(g, rest) \<in> set (matches (Seq a b) s)"
    then obtain g1 r1 g2 where "(g1, r1) \<in> set (matches a s)" "(g2, rest) \<in> set (matches b r1)"
      "g = g1 @ g2"
      by auto
    then obtain t1 t2 where "s = t1 @ r1" "derives a t1 g1" "r1 = t2 @ rest" "derives b t2 g2"
      unfolding Seq.IH by blast
    with \<open>g = g1 @ g2\<close> have "s = (t1 @ t2) @ rest \<and> derives (Seq a b) (t1 @ t2) g"
      by auto
    then show "\<exists>t. s = t @ rest \<and> derives (Seq a b) t g"
      by blast
  next
    assume "\<exists>t. s = t @ rest \<and> derives (Seq a b) t g"
    then obtain t1 t2 g1 g2 where *: "s = (t1 @ t2) @ rest" "g = g1 @ g2" "derives a t1 g1"
      "derives b t2 g2"
      by auto
    then have "(g1, t2 @ rest) \<in> set (matches a s)" "(g2, rest) \<in> set (matches b (t2 @ rest))"
      unfolding Seq.IH by auto
    with *(2) show "(g, rest) \<in> set (matches (Seq a b) s)"
      by force
  qed
next
  case (Alt a b)
  show ?case
    by (auto simp: Alt.IH)
next
  case (Group nm a)
  show ?case
  proof
    assume "(g, rest) \<in> set (matches (Group nm a) s)"
    then obtain g' where g': "(g', rest) \<in> set (matches a s)"
      "g = (nm, take (length s - length rest) s) # g'"
      by auto
    then obtain t where "s = t @ rest" "derives a t g'"
      unfolding Group.IH by blast
    with g'(2) show "\<exists>t. s = t @ rest \<and> derives (Group nm a) t g"
      by auto
  next
    assume "\<exists>t. s = t @ rest \<and> derives (Group nm a) t g"
    then obtain t g' where *: "s = t @ rest" "g = (nm, t) # g'" "derives a t g'"
      by auto
    then have "(g', rest) \<in> set (matches a s)"
      unfolding Group.IH by blast
    with * show "(g, rest) \<in> set (matches (Group nm a) s)"
      by force
  qed
qed

lemma derives_lit: "derives (lit c) t g \<longleftrightarrow> t = [of_char c] \<and> g = []"
  by (auto simp: lit_def)

lemma derives_range:
  "derives (char_range a b) t g \<longleftrightarrow>
     (\<exists>c. t = [c] \<and> of_char a \<le> c \<and> c \<le> of_char b) \<and> g = []"
  by (auto simp: char_range_def)

lemma derives_digit: "derives re_digit t g \<longleftrightarrow> (\<exists>c. t = [c] \<and> is_decimal c) \<and> g = []"
  by (auto simp: re_digit_def)

lemma derives_Seq_lit:
  "derives (Seq (lit c) b) t g \<longleftrightarrow> (\<exists>t2. t = of_char c # t2 \<and> derives b t2 g)"
  by (auto simp: derives_lit)

lemma derives_Seq_class:
  "derives (Seq (Class p) b) t g \<longleftrightarrow> (\<exists>c t2. t = c # t2 \<and> p c \<and> derives b t2 g)"
proof
  assume "derives (Seq (Class p) b) t g"
  then show "\<exists>c t2. t = c # t2 \<and> p c \<and> derives b t2 g"
    by auto
next
  assume "\<exists>c t2. t = c # t2 \<and> p c \<and> derives b t2 g"
  then obtain c t2 where "t = [c] @ t2" "p c" "derives b t2 g"
    by auto
  then have "t = [c] @ t2 \<and> g = [] @ g \<and> derives (Class p) [c] [] \<and> derives b t2 g"
    by simp
  then show "derives (Seq (Class p) b) t g"
    unfolding derives.simps(2) by blast
qed

lemma derives_Seq_range:
  "derives (Seq (char_range x y) b) t g \<longleftrightarrow>
     (\<exists>c t2. t = c # t2 \<and> of_char x \<le> c \<and> c \<le> of_char y \<and> derives b t2 g)"
  unfolding char_range_def derives_Seq_class by simp

lemma derives_Seq_digit:
  "derives (Seq re_digit b) t g \<longleftrightarrow> (\<exists>c t2. t = c # t2 \<and> is_decimal c \<and> derives b t2 g)"
  unfolding re_digit_def derives_Seq_class by simp

lemma derives_re_d: "derives re_d t g \<longleftrightarrow> is_day_text t \<and> g = [(''d'', t)]"
  unfolding re_d_def derives.simps(3,4) derives_Seq_lit derives_Seq_range derives_lit
    derives_range derives_digit
  by (auto simp: is_day_text_def digit_1_9_def split: list.splits)

lemma derives_re_m: "derives re_m t g \<longleftrightarrow> is_month_text t \<and> g = [(''m'', t)]"
  unfolding re_m_def derives.simps(3,4) derives_Seq_lit derives_Seq_range derives_lit
    derives_range derives_digit
  by (auto simp: is_month_text_def digit_1_9_def split: list.splits)

lemma derives_re_Y: "derives re_Y t g \<longleftrightarrow> is_year_text t \<and> g = [(''Y'', t)]"
  unfolding re_Y_def derives.simps(3,4) derives_Seq_digit derives_digit
  by (auto simp: is_year_text_def length_Suc_conv eval_nat_numeral)

lemma derives_format_regex:
  "derives format_regex t g \<longleftrightarrow>
     (\<exists>dt mt yt. t = dt @ codes ''.'' @ mt @ codes ''.'' @ yt \<and> is_day_text dt \<and> is_month_text mt
        \<and> is_year_text yt \<and> g = [(''d'', dt), (''m'', mt), (''Y'', yt)])"
  unfolding format_regex_def derives.simps derives_lit derives_re_d derives_re_m derives_re_Y
  by (auto simp: codes_def)

lemma not_decimal_dot: "\<not> is_decimal 46"
  by (simp add: is_decimal_def decimal_value_def DECIMAL_ZEROS_def)

lemma day_text_no_dot: "is_day_text t \<Longrightarrow> 46 \<notin> set t"
  by (auto simp: is_day_text_def digit_1_9_def not_decimal_dot split: list.splits)

lemma month_text_no_dot: "is_month_text t \<Longrightarrow> 46 \<notin> set t"
  by (auto simp: is_month_text_def digit_1_9_def split: list.splits)

lemma split_at_first:
  assumes "t1 @ c # r1 = t2 @ c # r2" and "c \<notin> set t1" and "c \<notin> set t2"
  shows "t1 = t2 \<and> r1 = r2"
  using assms
proof (induction t1 arbitrary: t2)
  case Nil
  then show ?case by (cases t2) auto
next
  case (Cons a t1)
  then show ?case by (cases t2) auto
qed

lemma format_texts_unique:
  assumes "dt @ codes ''.'' @ mt @ codes ''.'' @ yt @ r
      = dt' @ codes ''.'' @ mt' @ codes ''.'' @ yt' @ r'"
    and "is_day_text dt" "is_month_text mt" "is_year_text yt"
    and "is_day_text dt'" "is_month_text mt'" "is_year_text yt'"
  shows "dt = dt' \<and> mt = mt' \<and> yt = yt' \<and> r = r'"
proof -
  from assms(1) have "dt @ 46 # (mt @ 46 # yt @ r) = dt' @ 46 # (mt' @ 46 # yt' @ r')"
    by (simp add: codes_def)
  from split_at_first [OF this day_text_no_dot [OF assms(2)] day_text_no_dot [OF assms(5)]]
  have d: "dt = dt'" and "mt @ 46 # (yt @ r) = mt' @ 46 # (yt' @ r')"
    by simp_all
  from split_at_first [OF this(2) month_text_no_dot [OF assms(3)] month_text_no_dot [OF assms(6)]]
  have m: "mt = mt'" and "yt @ r = yt' @ r'"
    by simp_all
  moreover have "length yt = length yt'"
    using assms(4,7) by (simp add: is_year_text_def)
  ultimately show ?thesis
    using d by simp
qed

lemma re_match_full:
  assumes "derives format_regex s g"
  shows "re_match format_regex s = Some (g, [])"
proof -
  have "(g, []) \<in> set (matches format_regex s)"
    using assms by (simp add: matches_iff)
  then obtain g' r' ms where ms: "matches format_regex s = (g', r') # ms"
    by (cases "matches format_regex s") auto
  then have "(g', r') \<in> set (matches format_regex s)"
    by simp
  then obtain t' where t': "s = t' @ r'" "derives format_regex t' g'"
    unfolding matches_iff by blast
  from assms obtain dt mt yt where a: "s = dt @ codes ''.'' @ mt @ codes ''.'' @ yt"
    "is_day_text dt" "is_month_text mt" "is_year_text yt"
    "g = [(''d'', dt), (''m'', mt), (''Y'', yt)]"
    unfolding derives_format_regex by blast
  from t'(2) obtain dt' mt' yt' where b: "t' = dt' @ codes ''.'' @ mt' @ codes ''.'' @ yt'"
    "is_day_text dt'" "is_month_text mt'" "is_year_text yt'"
    "g' = [(''d'', dt'), (''m'', mt'), (''Y'', yt')]"
    unfolding derives_format_regex by blast
  have "dt @ codes ''.'' @ mt @ codes ''.'' @ yt @ []
      = dt' @ codes ''.'' @ mt' @ codes ''.'' @ yt' @ r'"
    using a(1) b(1) t'(1) by simp
  from format_texts_unique [OF this a(2-4) b(2-4)] a(5) b(5) have "g' = g" "r' = []"
    by simp_all
  with ms show ?thesis
    by (simp add: re_match_def)
qed

lemma re_match_not_full:
  assumes "\<nexists>g. derives format_regex s g"
  shows "re_match format_regex s = None
    \<or> (\<exists>g r. re_match format_regex s = Some (g, r) \<and> r \<noteq> [])"
proof (cases "matches format_regex s")
  case Nil
  then show ?thesis by (simp add: re_match_def)
next
  case (Cons m ms)
  obtain g r where m: "m = (g, r)" by (cases m)
  with Cons have "(g, r) \<in> set (matches format_regex s)"
    by simp
  then obtain t where "s = t @ r" "derives format_regex t g"
    unfolding matches_iff by blast
  with assms have "r \<noteq> []"
    by auto
  with Cons m show ?thesis
    by (simp add: re_match_def)
qed

lemma datetime_init_real_date:
  "datetime_init y m d =
     (if real_date y m d then Inr (midnight y m d)
      else Inl (ValueError (if \<not> (1 \<le> y \<and> y \<le> 9999) then ''year is out of range''
                            else if \<not> (1 \<le> m \<and> m \<le> 12) then ''month must be in 1..12''
                            else ''day is out of range for month'')))"
  by (simp add: datetime_init_def check_date_fields_def real_date_def midnight_def
      MINYEAR_def MAXYEAR_def)

lemma strptime_reads:
  assumes "s = dt @ codes ''.'' @ mt @ codes ''.'' @ yt"
    and "is_day_text dt" "is_month_text mt" "is_year_text yt"
  shows "strptime s = datetime_init (py_int yt) (py_int mt) (py_int dt)"
proof -
  have "derives format_regex s [(''d'', dt), (''m'', mt), (''Y'', yt)]"
    unfolding derives_format_regex using assms by blast
  from re_match_full [OF this] show ?thesis
    by (simp add: strptime_def group_text_def)
qed

lemma strptime_no_reading:
  assumes "\<nexists>dt mt yt. s = dt @ codes ''.'' @ mt @ codes ''.'' @ yt
      \<and> is_day_text dt \<and> is_month_text mt \<and> is_year_text yt"
  shows "\<exists>msg. strptime s = Inl (ValueError msg)"
proof -
  from assms have "\<nexists>g. derives format_regex s g"
    unfolding derives_format_regex by blast
  from re_match_not_full [OF this] show ?thesis
    by (auto simp: strptime_def)
qed

lemma Birthday_init_ValueError:
  "strptime s = Inl (ValueError msg) \<Longrightarrow>
     Birthday_init s = Inl (ValueError ''Date of birth must be in DD.MM.YYYY format'')"
  by (simp add: Birthday_init_def)

lemma ascii_decimal_value: "ascii_digit_code c \<Longrightarrow> decimal_value c = Some (c - 48)"
  by (simp add: ascii_digit_code_def decimal_value_def DECIMAL_ZEROS_def)

lemma ascii_is_decimal: "ascii_digit_code c \<Longrightarrow> is_decimal c"
  by (simp add: is_decimal_def ascii_decimal_value)

lemma ascii_not_space: "ascii_digit_code c \<Longrightarrow> c \<notin> set INT_SPACES"
  by (auto simp: ascii_digit_code_def INT_SPACES_def)

lemma py_int_digits2:
  assumes "ascii_digit_code a" and "ascii_digit_code b"
  shows "py_int [a, b] = 10 * (a - 48) + (b - 48)"
  using assms by (simp add: py_int_def ascii_not_space ascii_decimal_value)

lemma day_text_digits2:
  assumes "ascii_digit_code a" and "ascii_digit_code b"
    and "1 \<le> py_int [a, b]" and "py_int [a, b] \<le> 31"
  shows "is_day_text [a, b]"
  using assms(3,4) assms(1,2) ascii_is_decimal [OF assms(2)]
  unfolding py_int_digits2 [OF assms(1,2)]
  by (auto simp: is_day_text_def digit_1_9_def ascii_digit_code_def)

lemma month_text_digits2:
  assumes "ascii_digit_code a" and "ascii_digit_code b"
    and "1 \<le> py_int [a, b]" and "py_int [a, b] \<le> 12"
  shows "is_month_text [a, b]"
  using assms(3,4) assms(1,2) unfolding py_int_digits2 [OF assms(1,2)]
  by (auto simp: is_month_text_def digit_1_9_def ascii_digit_code_def)

lemma Birthday_init_reads:
  assumes "reads_as s y m d" and "real_date y m d"
  shows "Birthday_init s = Inr \<lparr>field_value = midnight y m d\<rparr>"
proof -
  from assms(1) obtain dt mt yt where r: "s = dt @ codes ''.'' @ mt @ codes ''.'' @ yt"
    "is_day_text dt" "is_month_text mt" "is_year_text yt"
    "y = py_int yt" "m = py_int mt" "d = py_int dt"
    unfolding reads_as_def by blast
  from strptime_reads [OF r(1-4)] r(5-7) assms(2) show ?thesis
    by (simp add: Birthday_init_def datetime_init_real_date)
qed

lemma Birthday_init_rejects:
  assumes "\<nexists>y m d. reads_as s y m d \<and> real_date y m d"
  shows "Birthday_init s = Inl (ValueError ''Date of birth must be in DD.MM.YYYY format'')"
proof (cases "\<exists>dt mt yt. s = dt @ codes ''.'' @ mt @ codes ''.'' @ yt
      \<and> is_day_text dt \<and> is_month_text mt \<and> is_year_text yt")
  case True
  then obtain dt mt yt where r: "s = dt @ codes ''.'' @ mt @ codes ''.'' @ yt"
    "is_day_text dt" "is_month_text mt" "is_year_text yt"
    by blast
  then have "reads_as s (py_int yt) (py_int mt) (py_int dt)"
    unfolding reads_as_def by blast
  with assms have "\<not> real_date (py_int yt) (py_int mt) (py_int dt)"
    by blast
  with strptime_reads [OF r] show ?thesis
    by (simp add: Birthday_init_def datetime_init_real_date)
next
  case False
  from strptime_no_reading [OF this] show ?thesis
    by (auto simp: Birthday_init_ValueError)
qed

lemma DD_MM_YYYY_reads:
  assumes "is_DD_MM_YYYY s"
    and "real_date (py_int (drop 6 s)) (py_int (take 2 (drop 3 s))) (py_int (take 2 s))"
  shows "reads_as s (py_int (drop 6 s)) (py_int (take 2 (drop 3 s))) (py_int (take 2 s))"
proof -
  from assms(1) have "length s = 10"
    by (simp add: is_DD_MM_YYYY_def)
  then obtain a b p c d q e f g h where s: "s = [a, b, p, c, d, q, e, f, g, h]"
    by (auto simp: length_Suc_conv eval_nat_numeral)
  with assms(1) have dig: "p = 46" "q = 46" "ascii_digit_code a" "ascii_digit_code b"
    "ascii_digit_code c" "ascii_digit_code d" "ascii_digit_code e" "ascii_digit_code f"
    "ascii_digit_code g" "ascii_digit_code h"
    by (simp_all add: is_DD_MM_YYYY_def)
  from assms(2) s have rd: "real_date (py_int [e, f, g, h]) (py_int [c, d]) (py_int [a, b])"
    by simp
  then have m: "1 \<le> py_int [c, d]" "py_int [c, d] \<le> 12" and d1: "1 \<le> py_int [a, b]"
    and dm: "py_int [a, b] \<le> days_in_month (py_int [e, f, g, h]) (py_int [c, d])"
    by (simp_all add: real_date_def)
  from dm days_in_month_le_31 [OF m, of "py_int [e, f, g, h]"] have d2: "py_int [a, b] \<le> 31"
    by linarith
  have "is_day_text [a, b]"
    by (rule day_text_digits2 [OF dig(3,4) d1 d2])
  moreover have "is_month_text [c, d]"
    by (rule month_text_digits2 [OF dig(5,6) m])
  moreover have "is_year_text [e, f, g, h]"
    using dig by (simp add: is_year_text_def ascii_is_decimal)
  moreover have "s = [a, b] @ codes ''.'' @ [c, d] @ codes ''.'' @ [e, f, g, h]"
    using s dig by (simp add: codes_def)
  ultimately have "reads_as s (py_int [e, f, g, h]) (py_int [c, d]) (py_int [a, b])"
    unfolding reads_as_def by blast
  with s show ?thesis
    by simp
qed

text \<open>
  Claim C4, as the specification has it: a birthday is built exactly from the strings
  DD.MM.YYYY, with a day and a month of two digits, that are real dates.  The directives
  \<^verbatim>\<open>%d\<close> and \<^verbatim>\<open>%m\<close> of \<^verbatim>\<open>strptime\<close> also take a single digit, so the string
  \<^verbatim>\<open>1.2.2000\<close> gives the first of February 2000.
\<close>

theorem Birthday_init_one_digit_counterexample:
  "Birthday_init (codes ''1.2.2000'') = Inr \<lparr>field_value = midnight 2000 2 1\<rparr>
   \<and> \<not> is_DD_MM_YYYY (codes ''1.2.2000'')"
  by code_simp

text \<open>
  Claim C4, amended, for every Python string, given by its code points: a birthday is
  built from the string exactly when the string is a day, a dot, a month, a dot and a
  year, where the day is an ASCII digit 1 to 9, alone or after an ASCII zero or a space,
  or the ASCII digit 1 or 2 followed by any decimal digit of Unicode, or 30 or 31; the
  month is an ASCII digit 1 to 9, alone or after an ASCII zero, or 10, 11 or 12; the
  year is four decimal digits of Unicode; and these are a real date of the years 1 to
  9999.  The value is then that date at midnight.  Every other string raises
  \<^verbatim>\<open>ValueError\<close> with the message of \<^verbatim>\<open>Birthday\<close>.  Every string DD.MM.YYYY of ASCII
  digits that is a real date is among the accepted ones.
\<close>

theorem Birthday_init_accepts:
  "(reads_as s y m d \<and> real_date y m d
      \<longrightarrow> Birthday_init s = Inr \<lparr>field_value = midnight y m d\<rparr>)
   \<and> ((\<nexists>y m d. reads_as s y m d \<and> real_date y m d)
      \<longrightarrow> Birthday_init s = Inl (ValueError ''Date of birth must be in DD.MM.YYYY format''))
   \<and> (is_DD_MM_YYYY s
        \<and> real_date (py_int (drop 6 s)) (py_int (take 2 (drop 3 s))) (py_int (take 2 s))
      \<longrightarrow> Birthday_init s
            = Inr \<lparr>field_value =
                   midnight (py_int (drop 6 s)) (py_int (take 2 (drop 3 s))) (py_int (take 2 s))\<rparr>)"
  using Birthday_init_reads Birthday_init_rejects DD_MM_YYYY_reads by blast

theorem Birthday_init_accepts_witness:
  "Birthday_init (codes ''05.06.1990'') = Inr \<lparr>field_value = midnight 1990 6 5\<rparr>
   \<and> Birthday_init (codes '' 5.6.1990'') = Inr \<lparr>field_value = midnight 1990 6 5\<rparr>
   \<and> Birthday_init arabic_year_text = Inr \<lparr>field_value = midnight 1990 6 5\<rparr>"
proof -
  have i: "is_DD_MM_YYYY (codes ''05.06.1990'')"
    by code_simp
  have p: "py_int (drop 6 (codes ''05.06.1990'')) = 1990"
    "py_int (take 2 (drop 3 (codes ''05.06.1990''))) = 6"
    "py_int (take 2 (codes ''05.06.1990'')) = 5"
    by code_simp+
  have v: "py_int (codes ''1990'') = 1990" "py_int (codes ''6'') = 6" "py_int (codes '' 5'') = 5"
    "py_int [1633, 1641, 1641, 1632] = 1990" "py_int (codes ''06'') = 6"
    "py_int (codes ''05'') = 5"
    by code_simp+
  have t: "is_day_text (codes '' 5'')" "is_month_text (codes ''6'')"
    "is_year_text (codes ''1990'')" "is_day_text (codes ''05'')" "is_month_text (codes ''06'')"
    "is_year_text [1633, 1641, 1641, 1632]"
    by code_simp+
  have d: "real_date 1990 6 5"
    by code_simp
  have r: "reads_as (codes '' 5.6.1990'') 1990 6 5"
  proof -
    have "codes '' 5.6.1990'' = codes '' 5'' @ codes ''.'' @ codes ''6'' @ codes ''.'' @ codes ''1990''"
      by (simp add: codes_def)
    with t(1-3) v(1-3) show ?thesis
      unfolding reads_as_def by metis
  qed
  have ra: "reads_as arabic_year_text 1990 6 5"
  proof -
    have "arabic_year_text
        = codes ''05'' @ codes ''.'' @ codes ''06'' @ codes ''.'' @ [1633, 1641, 1641, 1632]"
      by (simp add: arabic_year_text_def codes_def)
    with t(4-6) v(4-6) show ?thesis
      unfolding reads_as_def by metis
  qed
  from Birthday_init_accepts [of "codes '' 5.6.1990''" 1990 6 5] r d
  have "Birthday_init (codes '' 5.6.1990'') = Inr \<lparr>field_value = midnight 1990 6 5\<rparr>"
    by blast
  moreover from Birthday_init_accepts [of arabic_year_text 1990 6 5] ra d
  have "Birthday_init arabic_year_text = Inr \<lparr>field_value = midnight 1990 6 5\<rparr>"
    by blast
  moreover from Birthday_init_accepts [of "codes ''05.06.1990''"] i d p
  have "Birthday_init (codes ''05.06.1990'') = Inr \<lparr>field_value = midnight 1990 6 5\<rparr>"
    by simp
  ultimately show ?thesis
    by simp
qed


end
